theory Spec2Isabelle
  imports
    Complex_Main
    "HOL-Library.Char_ord"
    "HOL-Library.List_Lexorder"
    "HOL-Library.Multiset"
    "HOL-Library.Monad_Syntax"
begin

section \<open>Data frames\<close>

text \<open>
  The scripts pass a pandas DataFrame from stage to stage. A frame is modelled as the
  list of its rows, a row as a record of its cells. A text column holds a string or is
  missing (\<open>None\<close>, the NaN that \<open>isnull\<close> detects). A numeric column holds a number,
  is missing (\<open>NaN\<close>), or holds text that is not a number (\<open>Text\<close>), as a spreadsheet
  or CSV cell can. Marks are rationals: the decimal written in the cell. A character
  of a string is a code point below 256.
\<close>

datatype py_error = TypeError | ValueError | EOFError | DatabaseError

datatype 'a cell = NaN | Num 'a | Text string

record raw_record =
  student_name :: "string option"
  age :: "int cell"
  average_mark :: "rat cell"
  gender :: "string option"
  phone_number :: "int cell"

record clean_record = raw_record +
  first_name :: "string option"
  last_name :: "string option"

text \<open>\<open>Series.isnull()\<close> on a numeric column, and \<open>.sum()\<close> of the resulting booleans.\<close>

fun isnull :: "'a cell \<Rightarrow> bool" where
  "isnull NaN = True"
| "isnull (Num x) = False"
| "isnull (Text s) = False"

definition isnull_sum :: "('r \<Rightarrow> bool) \<Rightarrow> 'r list \<Rightarrow> nat" where
  "isnull_sum col_isnull df = length (filter col_isnull df)"

section \<open>02_data_cleaning.py\<close>

subsection \<open>remove_missing_average_marks\<close>

text \<open>
  \<open>df.dropna(subset=[...])\<close>: a row is dropped when one of the listed columns is null
  in it. The columns are given by their null tests.
\<close>

fun dropna :: "('r \<Rightarrow> bool) list \<Rightarrow> 'r list \<Rightarrow> 'r list" where
  "dropna cols [] = []"
| "dropna cols (r # df) =
     (if list_ex (\<lambda>col_isnull. col_isnull r) cols then dropna cols df
      else r # dropna cols df)"

text \<open>
  The function returns \<open>df_cleaned\<close>; the counts it prints on the way are
  \<open>initial_count\<close>, \<open>missing_marks\<close>, \<open>final_count\<close> and \<open>removed_count\<close>.
\<close>

definition remove_missing_average_marks :: "('a raw_record_scheme) list \<Rightarrow> ('a raw_record_scheme) list" where
  "remove_missing_average_marks df = dropna [\<lambda>r. isnull (average_mark r)] df"

definition missing_marks :: "('a raw_record_scheme) list \<Rightarrow> nat" where
  "missing_marks df = isnull_sum (\<lambda>r. isnull (average_mark r)) df"

definition removed_count :: "('a raw_record_scheme) list \<Rightarrow> nat" where
  "removed_count df = length df - length (remove_missing_average_marks df)"

subsection \<open>split_student_names\<close>

text \<open>Python's \<open>s.split(sep)\<close> for a one-character separator: a cut at every occurrence.\<close>

fun py_split :: "char \<Rightarrow> string \<Rightarrow> string list" where
  "py_split sep [] = [[]]"
| "py_split sep (c # cs) =
     (if c = sep then [] # py_split sep cs
      else (case py_split sep cs of [] \<Rightarrow> [[c]] | p # ps \<Rightarrow> (c # p) # ps))"

text \<open>
  \<open>Series.str.split(' ', expand=True)\<close>: one list of pieces per row, a missing name
  giving the one-element row \<open>[NaN]\<close>; the frame \<open>name_parts\<close> has as many columns as
  the longest row, shorter rows being filled with missing values.
\<close>

definition str_split :: "string option \<Rightarrow> string option list" where
  "str_split name = (case name of None \<Rightarrow> [None] | Some s \<Rightarrow> map Some (py_split CHR '' '' s))"

definition n_columns :: "'a list list \<Rightarrow> nat" where
  "n_columns rows = fold (\<lambda>row n. max (length row) n) rows 0"

definition column_at :: "nat \<Rightarrow> 'a option list \<Rightarrow> 'a option" where
  "column_at k row = (if k < length row then row ! k else None)"

text \<open>
  \<open>name_parts[0]\<close> and \<open>name_parts[1]\<close> raise when the frame has no such column, and
  nothing in the script catches that: \<open>None\<close> is the script ending in an exception.
\<close>

definition split_student_names :: "raw_record list \<Rightarrow> clean_record list option" where
  "split_student_names df =
     (let name_parts = map (\<lambda>r. str_split (student_name r)) df in
      if n_columns name_parts < 1 then None
      else if n_columns name_parts < 2 then None
      else Some (map (\<lambda>r.
        \<lparr> student_name = student_name r, age = age r, average_mark = average_mark r,
          gender = gender r, phone_number = phone_number r,
          first_name = column_at 0 (str_split (student_name r)),
          last_name = column_at 1 (str_split (student_name r)) \<rparr>) df))"

text \<open>
  The spec's words for the split, for comparison: the name is cut at the first run of
  whitespace; the first token is the first name, the second token the last name.
\<close>

definition is_space :: "char \<Rightarrow> bool" where
  "is_space c = (c = CHR '' '' \<or> c = CHR 0x09 \<or> c = CHR 0x0A \<or> c = CHR 0x0D)"

definition spec_first_token :: "string \<Rightarrow> string" where
  "spec_first_token s = takeWhile (\<lambda>c. \<not> is_space c) s"

definition spec_second_token :: "string \<Rightarrow> string" where
  "spec_second_token s =
     takeWhile (\<lambda>c. \<not> is_space c)
       (dropWhile is_space (dropWhile (\<lambda>c. \<not> is_space c) s))"


section \<open>The store\<close>

text \<open>
  The relational store is PostgreSQL behind psycopg2. Only what the scripts use is
  modelled: the one table that \<open>create_students_table\<close> defines, and a connection
  whose statements run in a transaction until \<open>commit\<close> or \<open>rollback\<close>. There is one
  writer (spec section 5). The store-assigned columns \<open>id\<close> and \<open>created_at\<close> are
  left out: no statement of the scripts reads them.
\<close>

subsection \<open>Column types\<close>

text \<open>
  Assignment to \<open>VARCHAR(n)\<close>: a longer string is an error unless the excess is all
  spaces, which are cut. \<open>CHAR(n)\<close> does the same and pads a shorter string with spaces.
\<close>

definition sql_varchar :: "nat \<Rightarrow> string \<Rightarrow> string option" where
  "sql_varchar n s =
     (if length s \<le> n then Some s
      else if list_all (\<lambda>c. c = CHR '' '') (drop n s) then Some (take n s)
      else None)"

definition sql_char :: "nat \<Rightarrow> string \<Rightarrow> string option" where
  "sql_char n s =
     (if length s \<le> n then Some (s @ replicate (n - length s) CHR '' '')
      else if list_all (\<lambda>c. c = CHR '' '') (drop n s) then Some (take n s)
      else None)"

definition sql_integer :: "int \<Rightarrow> int option" where
  "sql_integer i = (if - (2 ^ 31) \<le> i \<and> i < 2 ^ 31 then Some i else None)"

definition sql_bigint :: "int \<Rightarrow> int option" where
  "sql_bigint i = (if - (2 ^ 63) \<le> i \<and> i < 2 ^ 63 then Some i else None)"

text \<open>
  A number as psycopg2 sends it: a finite value, the NaN or an infinity of a float.
  \<open>NUMERIC(p,s)\<close> rounds to \<open>s\<close> decimals, halves away from zero, and overflows when
  the rounded value needs more than \<open>p\<close> digits; it holds the NaN, which sorts above
  every number, and no infinity.
\<close>

datatype numeric = Numeric rat | NumericNaN | NumericInfinity | NumericNegInfinity

definition round_half_away :: "rat \<Rightarrow> int" where
  "round_half_away x = (if x < 0 then - \<lfloor>- x + 1 / 2\<rfloor> else \<lfloor>x + 1 / 2\<rfloor>)"

fun sql_numeric :: "nat \<Rightarrow> nat \<Rightarrow> numeric \<Rightarrow> numeric option" where
  "sql_numeric p s NumericNaN = Some NumericNaN"
| "sql_numeric p s NumericInfinity = None"
| "sql_numeric p s NumericNegInfinity = None"
| "sql_numeric p s (Numeric x) =
     (let r = of_int (round_half_away (x * 10 ^ s)) / 10 ^ s in
      if \<bar>r\<bar> < 10 ^ (p - s) then Some (Numeric r) else None)"

fun numeric_ge :: "numeric \<Rightarrow> rat \<Rightarrow> bool" where
  "numeric_ge NumericNaN y = True"
| "numeric_ge NumericInfinity y = True"
| "numeric_ge NumericNegInfinity y = False"
| "numeric_ge (Numeric x) y = (x \<ge> y)"

fun numeric_le :: "numeric \<Rightarrow> rat \<Rightarrow> bool" where
  "numeric_le NumericNaN y = False"
| "numeric_le NumericInfinity y = False"
| "numeric_le NumericNegInfinity y = True"
| "numeric_le (Numeric x) y = (x \<le> y)"

subsection \<open>03_database_setup.py: the table of create_students_table\<close>

text \<open>
  The values of one \<open>INSERT\<close>, one per column named in the statement; \<open>None\<close> is SQL
  \<open>NULL\<close>.
\<close>

record sql_values =
  v_student_name :: "string option"
  v_first_name :: "string option"
  v_last_name :: "string option"
  v_age :: "int option"
  v_average_mark :: "numeric option"
  v_gender :: "string option"
  v_phone_number :: "int option"

text \<open>A stored row. The columns declared \<open>NOT NULL\<close> hold a value.\<close>

record students_row =
  db_student_name :: string
  db_first_name :: string
  db_last_name :: string
  db_age :: int
  db_average_mark :: rat
  db_gender :: string
  db_phone_number :: "int option"

text \<open>
  One definition per column of the \<open>CREATE TABLE\<close> statement: \<open>NOT NULL\<close>, then the
  column type, then the \<open>CHECK\<close>. The result is the stored value, \<open>None\<close> when the store
  raises an error.

  \<^verbatim>\<open>student_name VARCHAR(100) NOT NULL\<close>,
  \<^verbatim>\<open>first_name VARCHAR(50) NOT NULL\<close>, \<^verbatim>\<open>last_name VARCHAR(50) NOT NULL\<close>
\<close>

definition col_student_name :: "string option \<Rightarrow> string option" where
  "col_student_name v = do { s \<leftarrow> v; sql_varchar 100 s }"

definition col_first_name :: "string option \<Rightarrow> string option" where
  "col_first_name v = do { s \<leftarrow> v; sql_varchar 50 s }"

definition col_last_name :: "string option \<Rightarrow> string option" where
  "col_last_name v = do { s \<leftarrow> v; sql_varchar 50 s }"

text \<open>\<^verbatim>\<open>age INTEGER NOT NULL CHECK (age > 0)\<close>\<close>

definition col_age :: "int option \<Rightarrow> int option" where
  "col_age v = do { i \<leftarrow> v; a \<leftarrow> sql_integer i; if a > 0 then Some a else None }"

text \<open>
  \<^verbatim>\<open>average_mark NUMERIC(4,2) NOT NULL CHECK (average_mark >= 0 AND average_mark <= 10)\<close>
\<close>

definition col_average_mark :: "numeric option \<Rightarrow> rat option" where
  "col_average_mark v =
     do { x \<leftarrow> v; m \<leftarrow> sql_numeric 4 2 x;
          if numeric_ge m 0 \<and> numeric_le m 10
          then (case m of Numeric r \<Rightarrow> Some r | _ \<Rightarrow> None) else None }"

text \<open>\<^verbatim>\<open>gender CHAR(1) NOT NULL CHECK (gender IN ('m', 'f'))\<close>\<close>

definition col_gender :: "string option \<Rightarrow> string option" where
  "col_gender v =
     do { s \<leftarrow> v; g \<leftarrow> sql_char 1 s; if g \<in> set [''m'', ''f''] then Some g else None }"

text \<open>\<^verbatim>\<open>phone_number BIGINT\<close>: nullable, no check.\<close>

definition col_phone_number :: "int option \<Rightarrow> int option option" where
  "col_phone_number v = (case v of None \<Rightarrow> Some None | Some i \<Rightarrow> map_option Some (sql_bigint i))"

definition students_insert :: "sql_values \<Rightarrow> students_row option" where
  "students_insert v =
     do { sn \<leftarrow> col_student_name (v_student_name v);
          fn \<leftarrow> col_first_name (v_first_name v);
          ln \<leftarrow> col_last_name (v_last_name v);
          a \<leftarrow> col_age (v_age v);
          m \<leftarrow> col_average_mark (v_average_mark v);
          g \<leftarrow> col_gender (v_gender v);
          p \<leftarrow> col_phone_number (v_phone_number v);
          Some \<lparr> db_student_name = sn, db_first_name = fn, db_last_name = ln, db_age = a,
                 db_average_mark = m, db_gender = g, db_phone_number = p \<rparr> }"

subsection \<open>Connections\<close>

text \<open>
  \<open>committed\<close> is the durable content of the table, \<open>None\<close> while the table does not
  exist. \<open>working\<close> is what the session sees: the committed content with the changes
  of its open transaction. \<open>status\<close> is psycopg2's \<open>connection.status\<close>: the
  connection is not in autocommit mode, so the first statement after a connect, a
  commit or a rollback opens a transaction (\<open>STATUS_BEGIN\<close>), which stays open, also
  after a statement that failed, until \<open>commit\<close> or \<open>rollback\<close> (\<open>STATUS_READY\<close>).
  A connection that has just been opened is ready and has \<open>working\<close> equal to
  \<open>committed\<close>.
\<close>

datatype connection_status = STATUS_READY | STATUS_BEGIN

record connection =
  committed :: "students_row list option"
  working :: "students_row list option"
  status :: connection_status

text \<open>What \<open>cursor.execute\<close> does to the status before it runs its statement.\<close>

definition begin_transaction :: "connection \<Rightarrow> connection" where
  "begin_transaction conn = conn\<lparr>status := STATUS_BEGIN\<rparr>"

definition commit :: "connection \<Rightarrow> connection" where
  "commit conn = conn\<lparr>committed := working conn, status := STATUS_READY\<rparr>"

definition rollback :: "connection \<Rightarrow> connection" where
  "rollback conn = conn\<lparr>working := committed conn, status := STATUS_READY\<rparr>"

text \<open>\<open>conn.close()\<close> discards what was not committed.\<close>

definition close_connection :: "connection \<Rightarrow> connection" where
  "close_connection conn = rollback conn"

text \<open>\<^verbatim>\<open>SELECT COUNT(*) FROM {table_name}\<close>, then \<open>fetchone()[0]\<close>.\<close>

definition select_count :: "connection \<Rightarrow> connection \<times> (py_error + nat)" where
  "select_count conn =
     (begin_transaction conn,
      case working conn of None \<Rightarrow> Inl DatabaseError | Some rows \<Rightarrow> Inr (length rows))"

text \<open>
  One \<open>INSERT\<close>. \<open>executemany\<close> runs the statement for each tuple in order and stops
  at the first error; the rows inserted before it stay in the transaction until it
  ends. The connection is returned in both cases.
\<close>

definition execute_insert :: "connection \<Rightarrow> sql_values \<Rightarrow> connection \<times> py_error option" where
  "execute_insert conn v =
     (case working conn of
        None \<Rightarrow> (begin_transaction conn, Some DatabaseError)
      | Some rows \<Rightarrow>
          (case students_insert v of
             None \<Rightarrow> (begin_transaction conn, Some DatabaseError)
           | Some r \<Rightarrow> (begin_transaction (conn\<lparr>working := Some (rows @ [r])\<rparr>), None)))"

fun executemany :: "connection \<Rightarrow> sql_values list \<Rightarrow> connection \<times> py_error option" where
  "executemany conn [] = (conn, None)"
| "executemany conn (v # vs) =
     (case execute_insert conn v of
        (conn', Some e) \<Rightarrow> (conn', Some e)
      | (conn', None) \<Rightarrow> executemany conn' vs)"

text \<open>
  \<open>create_students_table\<close>: \<^verbatim>\<open>CREATE TABLE IF NOT EXISTS\<close>, then \<open>conn.commit()\<close>; the
  rest of the function prints the columns and returns \<open>True\<close>. A table that exists is
  taken to be the one this statement created.
\<close>

definition create_students_table :: "connection \<Rightarrow> connection \<times> bool" where
  "create_students_table conn =
     (let conn1 = begin_transaction (case working conn of
                           None \<Rightarrow> conn\<lparr>working := Some []\<rparr>
                         | Some rows \<Rightarrow> conn)
      in (commit conn1, True))"


section \<open>04_data_insertion.py\<close>

subsection \<open>validate_data_before_insertion\<close>

text \<open>
  The columns of \<open>critical_columns\<close>, each given by its \<open>isnull\<close> test, in the order
  of the source: first name, last name, age, average mark, gender.
\<close>

definition critical_columns :: "(clean_record \<Rightarrow> bool) list" where
  "critical_columns =
     [\<lambda>r. first_name r = None, \<lambda>r. last_name r = None, \<lambda>r. isnull (age r),
      \<lambda>r. isnull (average_mark r), \<lambda>r. gender r = None]"

text \<open>
  A comparison of a numeric column with a number, \<open>df[col] < k\<close>: element by element,
  false at a missing value, and a \<open>TypeError\<close> when the column holds text.
\<close>

fun is_text :: "'a cell \<Rightarrow> bool" where
  "is_text (Text s) = True"
| "is_text NaN = False"
| "is_text (Num x) = False"

fun cell_test :: "('a \<Rightarrow> bool) \<Rightarrow> 'a cell \<Rightarrow> bool" where
  "cell_test p (Num x) = p x"
| "cell_test p NaN = False"
| "cell_test p (Text s) = False"

definition series_cmp :: "('a \<Rightarrow> bool) \<Rightarrow> 'a cell list \<Rightarrow> py_error + bool list" where
  "series_cmp p col =
     (if list_ex is_text col then Inl TypeError else Inr (map (cell_test p) col))"

text \<open>\<open>df[mask1 | mask2].shape[0]\<close>\<close>

definition count_either :: "bool list \<Rightarrow> bool list \<Rightarrow> nat" where
  "count_either m1 m2 = length (filter (\<lambda>(a, b). a \<or> b) (zip m1 m2))"

definition invalid_ages :: "clean_record list \<Rightarrow> py_error + nat" where
  "invalid_ages df =
     (case series_cmp (\<lambda>a. a < 1) (map age df) of
        Inl e \<Rightarrow> Inl e
      | Inr too_low \<Rightarrow>
          (case series_cmp (\<lambda>a. a > 150) (map age df) of
             Inl e \<Rightarrow> Inl e
           | Inr too_high \<Rightarrow> Inr (count_either too_low too_high)))"

definition invalid_marks :: "clean_record list \<Rightarrow> py_error + nat" where
  "invalid_marks df =
     (case series_cmp (\<lambda>m. m < 0) (map average_mark df) of
        Inl e \<Rightarrow> Inl e
      | Inr too_low \<Rightarrow>
          (case series_cmp (\<lambda>m. m > 10) (map average_mark df) of
             Inl e \<Rightarrow> Inl e
           | Inr too_high \<Rightarrow> Inr (count_either too_low too_high)))"

text \<open>\<open>df['gender'].isin(['m', 'f'])\<close>: false at a missing value.\<close>

definition gender_isin :: "clean_record \<Rightarrow> bool" where
  "gender_isin r = (gender r \<in> set [Some ''m'', Some ''f''])"

definition invalid_gender_count :: "clean_record list \<Rightarrow> nat" where
  "invalid_gender_count df = length (filter (\<lambda>r. \<not> gender_isin r) df)"

text \<open>
  The function keeps one flag, \<open>validation_passed\<close>, and runs every check whatever the
  flag is. An exception of a comparison is not caught here nor in \<open>main\<close>.
\<close>

definition validate_data_before_insertion :: "clean_record list \<Rightarrow> py_error + bool" where
  "validate_data_before_insertion df =
     (let validation_passed = True;
          validation_passed =
            fold (\<lambda>column passed. if isnull_sum column df > 0 then False else passed)
              critical_columns validation_passed
      in case invalid_ages df of
           Inl e \<Rightarrow> Inl e
         | Inr n_ages \<Rightarrow>
             (let validation_passed = (if n_ages > 0 then False else validation_passed)
              in case invalid_marks df of
                   Inl e \<Rightarrow> Inl e
                 | Inr n_marks \<Rightarrow>
                     (let validation_passed = (if n_marks > 0 then False else validation_passed);
                          valid_genders = list_all gender_isin df;
                          validation_passed = (if \<not> valid_genders then False else validation_passed)
                      in Inr validation_passed)))"

text \<open>
  The invariants of spec section 3 for one record, in the spec's words, for comparison:
  age a positive integer at most 150, average mark in [0, 10], gender m or f, first
  and last name non-empty, phone number an integer when present.
\<close>

definition spec_invariants :: "clean_record \<Rightarrow> bool" where
  "spec_invariants r =
     ((case age r of Num a \<Rightarrow> 0 < a \<and> a \<le> 150 | _ \<Rightarrow> False) \<and>
      (case average_mark r of Num m \<Rightarrow> 0 \<le> m \<and> m \<le> 10 | _ \<Rightarrow> False) \<and>
      (gender r = Some ''m'' \<or> gender r = Some ''f'') \<and>
      (case first_name r of Some s \<Rightarrow> s \<noteq> [] | None \<Rightarrow> False) \<and>
      (case last_name r of Some s \<Rightarrow> s \<noteq> [] | None \<Rightarrow> False) \<and>
      (case phone_number r of Text s \<Rightarrow> False | _ \<Rightarrow> True))"

text \<open>What the function does check on one record.\<close>

definition checked_invariants :: "clean_record \<Rightarrow> bool" where
  "checked_invariants r =
     (first_name r \<noteq> None \<and> last_name r \<noteq> None \<and>
      (case age r of Num a \<Rightarrow> 1 \<le> a \<and> a \<le> 150 | _ \<Rightarrow> False) \<and>
      (case average_mark r of Num m \<Rightarrow> 0 \<le> m \<and> m \<le> 10 | _ \<Rightarrow> False) \<and>
      (gender r = Some ''m'' \<or> gender r = Some ''f''))"

subsection \<open>insert_student_data\<close>

text \<open>
  \<open>input(...).lower().strip()\<close> on the code points below 256. \<open>lower\<close> maps the
  upper case letters, A..Z and U+00C0..U+00DE without the multiplication sign U+00D7,
  to the letter 32 places on. \<open>strip\<close> removes the white space at both ends: the
  space, U+0009..U+000D, U+001C..U+001F, the next line U+0085 and the no-break space
  U+00A0.
\<close>

definition py_isupper :: "char \<Rightarrow> bool" where
  "py_isupper c =
     ((CHR ''A'' \<le> c \<and> c \<le> CHR ''Z'')
      \<or> (CHR 0xC0 \<le> c \<and> c \<le> CHR 0xDE \<and> c \<noteq> CHR 0xD7))"

definition py_lower :: "string \<Rightarrow> string" where
  "py_lower s = map (\<lambda>c. if py_isupper c then char_of (of_char c + (32 :: nat)) else c) s"

definition py_isspace :: "char \<Rightarrow> bool" where
  "py_isspace c =
     (c = CHR '' '' \<or> (CHR 0x09 \<le> c \<and> c \<le> CHR 0x0D) \<or> (CHR 0x1C \<le> c \<and> c \<le> CHR 0x1F)
      \<or> c = CHR 0x85 \<or> c = CHR 0xA0)"

definition py_strip :: "string \<Rightarrow> string" where
  "py_strip s = rev (dropWhile py_isspace (rev (dropWhile py_isspace s)))"

text \<open>
  \<open>int\<close> and \<open>float\<close> of text. Both strip the white space at the two ends and
  allow one underscore between two digits. \<open>int\<close> then reads a sign and one or more
  digits. \<open>float\<close> reads a sign and either inf, infinity or nan in any case, or
  digits with an optional point and an optional exponent, at least one digit being in
  front of or behind the point; its value is taken as the decimal that is written.
\<close>

definition is_digit :: "char \<Rightarrow> bool" where
  "is_digit c = (CHR ''0'' \<le> c \<and> c \<le> CHR ''9'')"

definition digits_value :: "string \<Rightarrow> int" where
  "digits_value ds = foldl (\<lambda>acc c. acc * 10 + (of_char c - 48)) 0 ds"

fun underscores_ok :: "char option \<Rightarrow> string \<Rightarrow> bool" where
  "underscores_ok prev [] = True"
| "underscores_ok prev (c # cs) =
     (if c = CHR ''_''
      then (case prev of None \<Rightarrow> False | Some p \<Rightarrow> is_digit p)
           \<and> (case cs of [] \<Rightarrow> False | d # ds \<Rightarrow> is_digit d)
           \<and> underscores_ok (Some c) cs
      else underscores_ok (Some c) cs)"

definition split_sign :: "string \<Rightarrow> int \<times> string" where
  "split_sign s =
     (case s of
        [] \<Rightarrow> (1, [])
      | c # cs \<Rightarrow> if c = CHR ''+'' then (1, cs) else if c = CHR ''-'' then (- 1, cs) else (1, s))"

definition int_of_text :: "string \<Rightarrow> int option" where
  "int_of_text s =
     (let t = py_strip s in
      if \<not> underscores_ok None t then None
      else (case split_sign (filter (\<lambda>c. c \<noteq> CHR ''_'') t) of
              (sign, ds) \<Rightarrow>
                if ds \<noteq> [] \<and> list_all is_digit ds then Some (sign * digits_value ds)
                else None))"

definition pow10 :: "int \<Rightarrow> rat" where
  "pow10 e = (if e \<ge> 0 then 10 ^ nat e else 1 / 10 ^ nat (- e))"

definition float_of_text :: "string \<Rightarrow> numeric option" where
  "float_of_text s =
     (let t = py_strip s in
      if \<not> underscores_ok None t then None
      else (case split_sign (filter (\<lambda>c. c \<noteq> CHR ''_'') t) of
              (sign, body) \<Rightarrow>
                if py_lower body = ''inf'' \<or> py_lower body = ''infinity''
                then Some (if sign > 0 then NumericInfinity else NumericNegInfinity)
                else if py_lower body = ''nan'' then Some NumericNaN
                else
                  (let int_part = takeWhile is_digit body;
                       rest = dropWhile is_digit body;
                       after_point = (case rest of
                                        [] \<Rightarrow> None
                                      | c # cs \<Rightarrow> if c = CHR ''.'' then Some cs else None);
                       frac_part = (case after_point of
                                      None \<Rightarrow> []
                                    | Some cs \<Rightarrow> takeWhile is_digit cs);
                       exponent = (case after_point of
                                     None \<Rightarrow> rest
                                   | Some cs \<Rightarrow> dropWhile is_digit cs);
                       mantissa = of_int (digits_value (int_part @ frac_part))
                                  / 10 ^ length frac_part
                   in if int_part = [] \<and> frac_part = [] then None
                      else (case exponent of
                              [] \<Rightarrow> Some (Numeric (of_int sign * mantissa))
                            | e # es \<Rightarrow>
                                if e = CHR ''e'' \<or> e = CHR ''E''
                                then (case split_sign es of
                                        (exp_sign, exp_digits) \<Rightarrow>
                                          if exp_digits \<noteq> [] \<and> list_all is_digit exp_digits
                                          then Some (Numeric (of_int sign * mantissa
                                                 * pow10 (exp_sign * digits_value exp_digits)))
                                          else None)
                                else None))))"

text \<open>
  The tuple \<open>record_data\<close> of one row, as psycopg2 sends it. \<open>int\<close> of a missing value
  raises \<open>ValueError\<close>, as \<open>int\<close> and \<open>float\<close> do on text they cannot read;
  \<open>float\<close> of a missing value is the float nan, sent as the numeric NaN. The phone
  number is \<open>None\<close>, SQL \<open>NULL\<close>, when \<open>pd.notna\<close> is false. A missing text cell
  is the float nan as well, which the store writes into a text column as the text
  \<open>NaN\<close>.
\<close>

fun py_int :: "int cell \<Rightarrow> py_error + int" where
  "py_int (Num i) = Inr i"
| "py_int NaN = Inl ValueError"
| "py_int (Text s) = (case int_of_text s of None \<Rightarrow> Inl ValueError | Some i \<Rightarrow> Inr i)"

fun py_float :: "rat cell \<Rightarrow> py_error + numeric" where
  "py_float (Num x) = Inr (Numeric x)"
| "py_float NaN = Inr NumericNaN"
| "py_float (Text s) = (case float_of_text s of None \<Rightarrow> Inl ValueError | Some x \<Rightarrow> Inr x)"

definition text_param :: "string option \<Rightarrow> string option" where
  "text_param c = (case c of None \<Rightarrow> Some ''NaN'' | Some s \<Rightarrow> Some s)"

definition record_data :: "clean_record \<Rightarrow> py_error + sql_values" where
  "record_data row =
     (case (if \<not> isnull (phone_number row) then map_sum id Some (py_int (phone_number row))
            else Inr None) of
        Inl e \<Rightarrow> Inl e
      | Inr phone \<Rightarrow>
          (case py_int (age row) of
             Inl e \<Rightarrow> Inl e
           | Inr a \<Rightarrow>
               (case py_float (average_mark row) of
                  Inl e \<Rightarrow> Inl e
                | Inr m \<Rightarrow>
                    Inr \<lparr> v_student_name = text_param (student_name row),
                          v_first_name = text_param (first_name row),
                          v_last_name = text_param (last_name row),
                          v_age = Some a, v_average_mark = Some m,
                          v_gender = text_param (gender row),
                          v_phone_number = phone \<rparr>)))"

text \<open>The loop over \<open>df.iterrows()\<close>: the first exception ends it.\<close>

fun insertion_data :: "clean_record list \<Rightarrow> py_error + sql_values list" where
  "insertion_data [] = Inr []"
| "insertion_data (row # df) =
     (case record_data row of
        Inl e \<Rightarrow> Inl e
      | Inr v \<Rightarrow> (case insertion_data df of Inl e \<Rightarrow> Inl e | Inr vs \<Rightarrow> Inr (v # vs)))"

text \<open>
  The function returns a boolean; the model returns the \<open>return\<close> statement taken,
  each of which prints its own message: success (with the number of records inserted
  and the final count), cancelled by the user, the \<open>psycopg2.Error\<close> handler, the
  \<open>Exception\<close> handler. Both handlers call \<open>conn.rollback()\<close>; the cancelled branch
  returns without committing or rolling back, in the transaction that the count has
  opened.
\<close>

datatype insert_outcome = Inserted nat nat | Cancelled | DatabaseFailure | UnexpectedFailure

fun returned :: "insert_outcome \<Rightarrow> bool" where
  "returned (Inserted n final_count) = True"
| "returned Cancelled = False"
| "returned DatabaseFailure = False"
| "returned UnexpectedFailure = False"

text \<open>
  From the \<open>INSERT\<close> statement to \<open>return True\<close>: the tuples are built, sent with
  \<open>executemany\<close> and committed, and the count is read again for the message.
\<close>

definition insert_rows :: "connection \<Rightarrow> clean_record list \<Rightarrow> connection \<times> insert_outcome" where
  "insert_rows conn df =
     (case insertion_data df of
        Inl e \<Rightarrow> (rollback conn, UnexpectedFailure)
      | Inr vs \<Rightarrow>
          (case executemany conn vs of
             (conn1, Some e) \<Rightarrow> (rollback conn1, DatabaseFailure)
           | (conn1, None) \<Rightarrow>
               (case select_count (commit conn1) of
                  (conn2, Inl e) \<Rightarrow> (rollback conn2, DatabaseFailure)
                | (conn2, Inr final_count) \<Rightarrow> (conn2, Inserted (length vs) final_count))))"

text \<open>
  \<open>stdin\<close> is the line that \<open>input\<close> reads when the prompt is shown, \<open>None\<close> at end
  of input, where \<open>input\<close> raises \<open>EOFError\<close>.
\<close>

definition py_input :: "string option \<Rightarrow> py_error + string" where
  "py_input stdin = (case stdin of None \<Rightarrow> Inl EOFError | Some line \<Rightarrow> Inr line)"

definition insert_student_data ::
  "connection \<Rightarrow> clean_record list \<Rightarrow> string option \<Rightarrow> connection \<times> insert_outcome" where
  "insert_student_data conn df stdin =
     (case select_count conn of
        (conn0, Inl e) \<Rightarrow> (rollback conn0, DatabaseFailure)
      | (conn0, Inr existing_count) \<Rightarrow>
          if existing_count > 0
          then (case py_input stdin of
                  Inl e \<Rightarrow> (rollback conn0, UnexpectedFailure)
                | Inr line \<Rightarrow>
                    (let response = py_strip (py_lower line) in
                     if response \<noteq> ''y'' then (conn0, Cancelled)
                     else insert_rows conn0 df))
          else insert_rows conn0 df)"

subsection \<open>verify_insertion_success\<close>

text \<open>
  SQL \<open>SUM\<close> is \<open>NULL\<close> over no rows. Each of the five sums (first name, last
  name, age, average mark, gender) adds, per row,
  \<^verbatim>\<open>CASE WHEN col IS NULL THEN 1 ELSE 0 END\<close> for a column that is \<open>NOT NULL\<close>: 0 for
  every stored row.
\<close>

definition sql_sum :: "int list \<Rightarrow> int option" where
  "sql_sum xs = (if xs = [] then None else Some (sum_list xs))"

definition null_counts :: "students_row list \<Rightarrow> int option list" where
  "null_counts rows =
     [sql_sum (map (\<lambda>r. 0) rows), sql_sum (map (\<lambda>r. 0) rows), sql_sum (map (\<lambda>r. 0) rows),
      sql_sum (map (\<lambda>r. 0) rows), sql_sum (map (\<lambda>r. 0) rows)]"

text \<open>
  The function only reads, in the transaction that its first statement opens; its
  handlers return \<open>False\<close> without a rollback. The sample it prints after the checks
  does not change the result.
\<close>

definition verify_insertion_success :: "connection \<Rightarrow> nat \<Rightarrow> connection \<times> bool" where
  "verify_insertion_success conn expected_count =
     (case select_count conn of
        (conn1, Inl e) \<Rightarrow> (conn1, False)
      | (conn1, Inr actual_count) \<Rightarrow>
          if actual_count \<ge> expected_count
          then (let all_checks_passed =
                      fold (\<lambda>n passed. if n = Some 0 then passed else False)
                        (null_counts (case working conn1 of None \<Rightarrow> [] | Some rows \<Rightarrow> rows)) True
                in (conn1, all_checks_passed))
          else (conn1, False))"

subsection \<open>main\<close>

text \<open>
  Steps 3, 5 and 6 of \<open>main\<close>, on the frame that step 2 loaded and the connection that
  step 4 opened; the result is the connection after \<open>conn.close()\<close> and the exit
  status of the process. An uncaught exception of the validation ends the process with
  status 1, as \<open>sys.exit(1)\<close> does. A failed verification prints a message and nothing
  else.
\<close>

definition main :: "clean_record list \<Rightarrow> connection \<Rightarrow> string option \<Rightarrow> connection \<times> nat" where
  "main df conn stdin =
     (case validate_data_before_insertion df of
        Inl e \<Rightarrow> (conn, 1)
      | Inr passed \<Rightarrow>
          if \<not> passed then (conn, 1)
          else
            (case insert_student_data conn df stdin of
               (conn1, outcome) \<Rightarrow>
                 if \<not> returned outcome then (close_connection conn1, 1)
                 else
                   (case verify_insertion_success conn1 (length df) of
                      (conn2, verification_passed) \<Rightarrow> (close_connection conn2, 0))))"

section \<open>05_data_analysis.py\<close>

subsection \<open>analyze_student_performance_by_gender\<close>

text \<open>
  \<open>AVG\<close> of a \<open>NUMERIC\<close> column is the sum divided by the count, a division of two
  numerics. PostgreSQL keeps a numeric in digits of base 10000 and chooses the number
  of decimals of a quotient from the places of the leading digits of the two operands,
  so that the quotient has at least 16 significant digits and no fewer decimals than
  an operand; the quotient is rounded to that many decimals, halves away from zero.
  The sum of a \<open>NUMERIC(4,2)\<close> column has two decimals, the count none.

  \<open>nbase_weight\<close> is the place of the leading base 10000 digit of a positive
  integer, \<open>numeric_leading\<close> the place and the value of the leading digit of a
  numeric with two decimals, 0 and 0 for zero.
\<close>

fun nbase_weight :: "nat \<Rightarrow> nat" where
  "nbase_weight n = (if n < 10000 then 0 else Suc (nbase_weight (n div 10000)))"

definition numeric_leading :: "rat \<Rightarrow> int \<times> nat" where
  "numeric_leading x =
     (let hundredths = nat \<lfloor>\<bar>x\<bar> * 100\<rfloor>;
          int_part = hundredths div 100;
          frac_part = hundredths mod 100
      in if int_part > 0
         then (int (nbase_weight int_part), int_part div 10000 ^ nbase_weight int_part)
         else if frac_part > 0 then (- 1, frac_part * 100)
         else (0, 0))"

definition select_div_scale :: "rat \<Rightarrow> nat \<Rightarrow> nat" where
  "select_div_scale sumx n =
     (case numeric_leading sumx of
        (weight1, firstdigit1) \<Rightarrow>
          (case numeric_leading (of_nat n) of
             (weight2, firstdigit2) \<Rightarrow>
               (let qweight = weight1 - weight2 - (if firstdigit1 \<le> firstdigit2 then 1 else 0);
                    rscale = max (max (16 - qweight * 4) 2) 0
                in nat (min rscale 1000))))"

definition numeric_div :: "rat \<Rightarrow> nat \<Rightarrow> rat" where
  "numeric_div sumx n =
     of_int (round_half_away (sumx / of_nat n * 10 ^ select_div_scale sumx n))
     / 10 ^ select_div_scale sumx n"

definition pg_avg :: "rat list \<Rightarrow> rat" where
  "pg_avg xs = numeric_div (sum_list xs) (length xs)"

text \<open>
  SQL aggregates over a list of marks: \<open>NULL\<close> over no rows for \<open>MIN\<close>, \<open>MAX\<close> and
  \<open>AVG\<close>.
\<close>

definition sql_min :: "rat list \<Rightarrow> rat option" where
  "sql_min xs = (if xs = [] then None else Some (Min (set xs)))"

definition sql_max :: "rat list \<Rightarrow> rat option" where
  "sql_max xs = (if xs = [] then None else Some (Max (set xs)))"

definition sql_avg :: "rat list \<Rightarrow> rat option" where
  "sql_avg xs = (if xs = [] then None else Some (pg_avg xs))"

text \<open>The first query, the overview, and the \<open>:.2f\<close> that prints its columns.\<close>

definition overview_query :: "students_row list \<Rightarrow> nat \<times> nat \<times> rat option \<times> rat option \<times> rat option" where
  "overview_query rows =
     (length rows, length (remdups (map db_gender rows)),
      sql_min (map db_average_mark rows), sql_max (map db_average_mark rows),
      sql_avg (map db_average_mark rows))"

definition format_2f :: "rat option \<Rightarrow> py_error + unit" where
  "format_2f x = (case x of None \<Rightarrow> Inl TypeError | Some v \<Rightarrow> Inr ())"

text \<open>
  The analysis query: \<^verbatim>\<open>WHERE average_mark > 5.0 GROUP BY gender ORDER BY gender\<close>, one
  row per gender among the selected rows.
\<close>

record gender_group =
  group_gender :: string
  student_count :: nat
  avg_mark_in_group :: rat
  min_mark_in_group :: rat
  max_mark_in_group :: rat

definition group_of :: "students_row list \<Rightarrow> string \<Rightarrow> gender_group" where
  "group_of selected g =
     (let marks = map db_average_mark (filter (\<lambda>r. db_gender r = g) selected) in
      \<lparr> group_gender = g, student_count = length marks,
        avg_mark_in_group = pg_avg marks,
        min_mark_in_group = Min (set marks), max_mark_in_group = Max (set marks) \<rparr>)"

definition analysis_query :: "students_row list \<Rightarrow> gender_group list" where
  "analysis_query rows =
     (let selected = filter (\<lambda>r. db_average_mark r > 5) rows in
      map (group_of selected) (sort (remdups (map db_gender selected))))"

text \<open>
  Both handlers return \<open>None\<close>: the \<open>psycopg2.Error\<close> one when the table does not
  exist, the \<open>Exception\<close> one when a \<open>:.2f\<close> of the overview raises. Neither rolls
  back: the connection comes back in the transaction that the first query opened.
\<close>

definition analyze_student_performance_by_gender ::
  "connection \<Rightarrow> connection \<times> gender_group list option" where
  "analyze_student_performance_by_gender conn =
     (begin_transaction conn,
      case working conn of
        None \<Rightarrow> None
      | Some rows \<Rightarrow>
          (case overview_query rows of
             (total_students, gender_categories, min_mark, max_mark, overall) \<Rightarrow>
               (case format_2f min_mark of Inl e \<Rightarrow> None | Inr u1 \<Rightarrow>
                (case format_2f max_mark of Inl e \<Rightarrow> None | Inr u2 \<Rightarrow>
                 (case format_2f overall of Inl e \<Rightarrow> None | Inr u3 \<Rightarrow>
                    Some (analysis_query rows))))))"

subsection \<open>perform_additional_exploratory_analysis: the age group query\<close>

record age_group =
  age_group_label :: string
  total_students :: nat
  high_performers :: nat
  avg_mark :: rat

definition age_group_of :: "int \<Rightarrow> string" where
  "age_group_of a =
     (if a < 20 then ''Under 20'' else if 20 \<le> a \<and> a \<le> 25 then ''20-25'' else ''Over 25'')"

definition age_group_row :: "students_row list \<Rightarrow> string \<Rightarrow> age_group" where
  "age_group_row rows l =
     (let members = filter (\<lambda>r. age_group_of (db_age r) = l) rows in
      \<lparr> age_group_label = l, total_students = length members,
        high_performers = length (filter (\<lambda>r. db_average_mark r > 5) members),
        avg_mark = pg_avg (map db_average_mark members) \<rparr>)"

text \<open>The groups of \<open>GROUP BY\<close>, one per label that occurs, before any ordering.\<close>

definition age_group_rows :: "students_row list \<Rightarrow> age_group list" where
  "age_group_rows rows =
     map (age_group_row rows) (remdups (map (\<lambda>r. age_group_of (db_age r)) rows))"

text \<open>
  \<^verbatim>\<open>ORDER BY avg_mark DESC\<close> names no second key: \<open>age_results\<close> may be any arrangement
  of the groups in which the averages do not increase.
\<close>

definition is_age_results :: "students_row list \<Rightarrow> age_group list \<Rightarrow> bool" where
  "is_age_results rows res =
     (mset res = mset (age_group_rows rows) \<and> sorted_wrt (\<lambda>a b. avg_mark a \<ge> avg_mark b) res)"

text \<open>One such arrangement, by insertion into a list kept in descending order.\<close>

fun insert_desc :: "age_group \<Rightarrow> age_group list \<Rightarrow> age_group list" where
  "insert_desc g [] = [g]"
| "insert_desc g (h # hs) = (if avg_mark g \<ge> avg_mark h then g # h # hs else h # insert_desc g hs)"

definition age_results :: "students_row list \<Rightarrow> age_group list" where
  "age_results rows = foldr insert_desc (age_group_rows rows) []"

section \<open>The cleaner\<close>

lemma dropna_single: "dropna [p] df = filter (\<lambda>r. \<not> p r) df"
  by (induction df) simp_all

lemma length_filter_split: "length (filter (\<lambda>r. \<not> p r) df) + length (filter p df) = length df"
  by (induction df) simp_all

text \<open>
  C4, as the code has it. \<open>remove_missing_average_marks\<close> keeps, in their order,
  exactly the records whose average mark is not missing, and drops the others: the
  length of its result is the length of the input less the number of missing marks,
  which is the number of records removed. The function is total: it never aborts.
\<close>

theorem remove_missing_average_marks_drops_null:
  "remove_missing_average_marks df = filter (\<lambda>r. \<not> isnull (average_mark r)) df
   \<and> length (remove_missing_average_marks df) + missing_marks df = length df
   \<and> removed_count df = missing_marks df"
proof -
  have eq: "remove_missing_average_marks df = filter (\<lambda>r. \<not> isnull (average_mark r)) df"
    by (simp add: remove_missing_average_marks_def dropna_single)
  have len: "length (remove_missing_average_marks df) + missing_marks df = length df"
    unfolding eq missing_marks_def isnull_sum_def by (rule length_filter_split)
  have "removed_count df = missing_marks df"
    unfolding removed_count_def using len by arith
  with eq len show ?thesis by simp
qed

text \<open>
  An instance: of three records, one with a mark, one without, one with text for a
  mark, the second alone is dropped.
\<close>

theorem remove_missing_average_marks_drops_null_witness:
  "remove_missing_average_marks
     [\<lparr>student_name = Some ''Ann Lee'', age = Num 20, average_mark = Num 7,
       gender = Some ''f'', phone_number = NaN\<rparr>,
      \<lparr>student_name = Some ''Bo Chen'', age = Num 21, average_mark = NaN,
       gender = Some ''m'', phone_number = NaN\<rparr>,
      \<lparr>student_name = Some ''Cy Diaz'', age = Num 22, average_mark = Text ''abc'',
       gender = Some ''m'', phone_number = NaN\<rparr>]
   = [\<lparr>student_name = Some ''Ann Lee'', age = Num 20, average_mark = Num 7,
       gender = Some ''f'', phone_number = NaN\<rparr>,
      \<lparr>student_name = Some ''Cy Diaz'', age = Num 22, average_mark = Text ''abc'',
       gender = Some ''m'', phone_number = NaN\<rparr>]"
  using remove_missing_average_marks_drops_null
    [of "[\<lparr>student_name = Some ''Ann Lee'', age = Num 20, average_mark = Num 7,
           gender = Some ''f'', phone_number = NaN\<rparr>,
          \<lparr>student_name = Some ''Bo Chen'', age = Num 21, average_mark = NaN,
           gender = Some ''m'', phone_number = NaN\<rparr>,
          \<lparr>student_name = Some ''Cy Diaz'', age = Num 22, average_mark = Text ''abc'',
           gender = Some ''m'', phone_number = NaN\<rparr>]"]
  by simp

text \<open>
  C4 as stated fails: a record whose average mark is text, not a number, is not
  dropped.
\<close>

theorem remove_missing_average_marks_keeps_text:
  "remove_missing_average_marks
     [\<lparr>student_name = Some ''Cy Diaz'', age = Num 22, average_mark = Text ''abc'',
       gender = Some ''m'', phone_number = NaN\<rparr>]
   = [\<lparr>student_name = Some ''Cy Diaz'', age = Num 22, average_mark = Text ''abc'',
       gender = Some ''m'', phone_number = NaN\<rparr>]"
  by (simp add: remove_missing_average_marks_def)

lemma py_split_not_Nil: "py_split sep s \<noteq> []"
  by (induction s) (auto split: list.splits)

lemma py_split_no_sep: "sep \<notin> set s \<Longrightarrow> py_split sep s = [s]"
  by (induction s) auto

lemma py_split_sep:
  "sep \<in> set s \<Longrightarrow>
   py_split sep s = takeWhile (\<lambda>c. c \<noteq> sep) s # py_split sep (tl (dropWhile (\<lambda>c. c \<noteq> sep) s))"
proof (induction s)
  case Nil
  then show ?case by simp
next
  case (Cons c cs)
  show ?case
  proof (cases "c = sep")
    case True
    then show ?thesis by simp
  next
    case False
    with Cons.prems have "sep \<in> set cs" by simp
    from Cons.IH[OF this] False show ?thesis by simp
  qed
qed

lemma hd_py_split: "hd (py_split sep s) = takeWhile (\<lambda>c. c \<noteq> sep) s"
proof (cases "sep \<in> set s")
  case True
  then show ?thesis by (simp add: py_split_sep)
next
  case False
  then have tw: "takeWhile (\<lambda>c. c \<noteq> sep) s = s" by (induction s) auto
  show ?thesis unfolding tw using False by (simp add: py_split_no_sep)
qed

lemma length_py_split_ge2: "2 \<le> length (py_split sep s) \<longleftrightarrow> sep \<in> set s"
proof (cases "sep \<in> set s")
  case True
  have "py_split sep (tl (dropWhile (\<lambda>c. c \<noteq> sep) s)) \<noteq> []" by (rule py_split_not_Nil)
  then have "1 \<le> length (py_split sep (tl (dropWhile (\<lambda>c. c \<noteq> sep) s)))"
    by (cases "py_split sep (tl (dropWhile (\<lambda>c. c \<noteq> sep) s))") simp_all
  with True show ?thesis by (simp add: py_split_sep)
next
  case False
  then show ?thesis by (simp add: py_split_no_sep)
qed

lemma fold_max_ge:
  "m \<le> fold (\<lambda>row n. max (length row) n) rows k \<longleftrightarrow> m \<le> k \<or> (\<exists>row\<in>set rows. m \<le> length row)"
  by (induction rows arbitrary: k) auto

lemma n_columns_ge: "0 < m \<Longrightarrow> m \<le> n_columns rows \<longleftrightarrow> (\<exists>row\<in>set rows. m \<le> length row)"
  unfolding n_columns_def by (simp add: fold_max_ge)

lemma column_at_0:
  "column_at 0 (str_split name) = map_option (takeWhile (\<lambda>c. c \<noteq> CHR '' '')) name"
proof (cases name)
  case None
  then show ?thesis by (simp add: column_at_def str_split_def)
next
  case (Some s)
  have ne: "py_split CHR '' '' s \<noteq> []" by (rule py_split_not_Nil)
  then have "map Some (py_split CHR '' '' s) ! 0 = Some (hd (py_split CHR '' '' s))"
    by (cases "py_split CHR '' '' s") simp_all
  with Some ne show ?thesis
    by (simp add: column_at_def str_split_def hd_py_split)
qed

lemma column_at_1:
  "column_at 1 (str_split name) =
     (case name of None \<Rightarrow> None
      | Some s \<Rightarrow> if CHR '' '' \<in> set s
                  then Some (takeWhile (\<lambda>c. c \<noteq> CHR '' '') (tl (dropWhile (\<lambda>c. c \<noteq> CHR '' '') s)))
                  else None)"
proof (cases name)
  case None
  then show ?thesis by (simp add: column_at_def str_split_def)
next
  case (Some s)
  show ?thesis
  proof (cases "CHR '' '' \<in> set s")
    case True
    let ?rest = "tl (dropWhile (\<lambda>c. c \<noteq> CHR '' '') s)"
    have ne: "py_split CHR '' '' ?rest \<noteq> []" by (rule py_split_not_Nil)
    then have "py_split CHR '' '' ?rest ! 0 = takeWhile (\<lambda>c. c \<noteq> CHR '' '') ?rest"
      using hd_py_split[of "CHR '' ''" ?rest] by (cases "py_split CHR '' '' ?rest") simp_all
    with True Some ne show ?thesis
      by (simp add: column_at_def str_split_def py_split_sep)
  next
    case False
    with Some show ?thesis by (simp add: column_at_def str_split_def py_split_no_sep)
  qed
qed

lemma split_returns_iff:
  "2 \<le> n_columns (map (\<lambda>r. str_split (student_name r)) df) \<longleftrightarrow>
     (\<exists>r\<in>set df. \<exists>s. student_name r = Some s \<and> CHR '' '' \<in> set s)"
proof -
  have "2 \<le> n_columns (map (\<lambda>r. str_split (student_name r)) df) \<longleftrightarrow>
        (\<exists>r\<in>set df. 2 \<le> length (str_split (student_name r)))"
    by (simp add: n_columns_ge)
  also have "\<dots> \<longleftrightarrow> (\<exists>r\<in>set df. \<exists>s. student_name r = Some s \<and> CHR '' '' \<in> set s)"
    by (auto simp: str_split_def length_py_split_ge2 split: option.splits)
  finally show ?thesis .
qed

text \<open>
  C5, as the code has it. In a batch where some name contains a space,
  \<open>split_student_names\<close> returns every record with two columns added. The name is cut
  at every single space: the first name is the text before the first space, the last
  name is the text between the first space and the second (empty when two spaces are
  adjacent), what follows the second space is discarded; a name without a space has
  its last name left missing, and a missing name gives two missing columns.
\<close>

theorem split_student_names_pieces:
  assumes "\<exists>r\<in>set df. \<exists>s. student_name r = Some s \<and> CHR '' '' \<in> set s"
  shows "split_student_names df =
     Some (map (\<lambda>r.
       \<lparr> student_name = student_name r, age = age r, average_mark = average_mark r,
         gender = gender r, phone_number = phone_number r,
         first_name = map_option (takeWhile (\<lambda>c. c \<noteq> CHR '' '')) (student_name r),
         last_name =
           (case student_name r of
              None \<Rightarrow> None
            | Some s \<Rightarrow>
                if CHR '' '' \<in> set s
                then Some (takeWhile (\<lambda>c. c \<noteq> CHR '' '')
                            (tl (dropWhile (\<lambda>c. c \<noteq> CHR '' '') s)))
                else None) \<rparr>) df)"
proof -
  from assms have "2 \<le> n_columns (map (\<lambda>r. str_split (student_name r)) df)"
    by (simp only: split_returns_iff)
  then have "\<not> n_columns (map (\<lambda>r. str_split (student_name r)) df) < 1"
    and "\<not> n_columns (map (\<lambda>r. str_split (student_name r)) df) < 2"
    by arith+
  then show ?thesis
    unfolding split_student_names_def Let_def column_at_0 column_at_1 by simp
qed

text \<open>
  An instance: a three-part name, a one-part name and a missing name in one batch.
\<close>

theorem split_student_names_pieces_witness:
  "split_student_names
     [\<lparr>student_name = Some ''Ann Lee Jones'', age = Num 20, average_mark = Num 7,
       gender = Some ''f'', phone_number = NaN\<rparr>,
      \<lparr>student_name = Some ''Cher'', age = Num 21, average_mark = Num 8,
       gender = Some ''f'', phone_number = NaN\<rparr>,
      \<lparr>student_name = None, age = Num 22, average_mark = Num 9,
       gender = Some ''m'', phone_number = NaN\<rparr>]
   = Some
     [\<lparr>student_name = Some ''Ann Lee Jones'', age = Num 20, average_mark = Num 7,
       gender = Some ''f'', phone_number = NaN,
       first_name = Some ''Ann'', last_name = Some ''Lee''\<rparr>,
      \<lparr>student_name = Some ''Cher'', age = Num 21, average_mark = Num 8,
       gender = Some ''f'', phone_number = NaN,
       first_name = Some ''Cher'', last_name = None\<rparr>,
      \<lparr>student_name = None, age = Num 22, average_mark = Num 9,
       gender = Some ''m'', phone_number = NaN,
       first_name = None, last_name = None\<rparr>]"
  using split_student_names_pieces
    [of "[\<lparr>student_name = Some ''Ann Lee Jones'', age = Num 20, average_mark = Num 7,
           gender = Some ''f'', phone_number = NaN\<rparr>,
          \<lparr>student_name = Some ''Cher'', age = Num 21, average_mark = Num 8,
           gender = Some ''f'', phone_number = NaN\<rparr>,
          \<lparr>student_name = None, age = Num 22, average_mark = Num 9,
           gender = Some ''m'', phone_number = NaN\<rparr>]"]
  by simp

text \<open>
  C5 as stated fails: the cut is at one space, not at a run of whitespace. With two
  spaces between the tokens the last name is the empty text between them, where the
  second token of the name is Smith.
\<close>

theorem split_student_names_double_space:
  "split_student_names
     [\<lparr>student_name = Some ''John  Smith'', age = Num 20, average_mark = Num 7,
       gender = Some ''m'', phone_number = NaN\<rparr>]
   = Some
     [\<lparr>student_name = Some ''John  Smith'', age = Num 20, average_mark = Num 7,
       gender = Some ''m'', phone_number = NaN,
       first_name = Some ''John'', last_name = Some ''''\<rparr>]
   \<and> spec_second_token ''John  Smith'' = ''Smith''"
  by (simp add: split_student_names_def n_columns_def str_split_def column_at_def
      spec_second_token_def is_space_def)

section \<open>The validator\<close>

lemma fold_missing:
  "fold (\<lambda>column passed. if isnull_sum column df > 0 then False else passed) cols b
   = (b \<and> list_all (\<lambda>column. isnull_sum column df = 0) cols)"
  by (induction cols arbitrary: b) auto

lemma isnull_sum_0: "isnull_sum p df = 0 \<longleftrightarrow> (\<forall>r\<in>set df. \<not> p r)"
  by (auto simp: isnull_sum_def filter_empty_conv)

lemma series_cmp_cases:
  "series_cmp p col = (if \<exists>c\<in>set col. is_text c then Inl TypeError else Inr (map (cell_test p) col))"
  by (simp add: series_cmp_def list_ex_iff)

lemma count_either_0:
  "count_either (map f xs) (map g xs) = 0 \<longleftrightarrow> (\<forall>x\<in>set xs. \<not> f x \<and> \<not> g x)"
  by (induction xs) (auto simp: count_either_def)

lemma invalid_ages_cases:
  "invalid_ages df =
     (if \<exists>r\<in>set df. is_text (age r) then Inl TypeError
      else Inr (count_either (map (\<lambda>r. cell_test (\<lambda>a. a < 1) (age r)) df)
                             (map (\<lambda>r. cell_test (\<lambda>a. a > 150) (age r)) df)))"
  by (simp add: invalid_ages_def series_cmp_cases comp_def)

lemma invalid_marks_cases:
  "invalid_marks df =
     (if \<exists>r\<in>set df. is_text (average_mark r) then Inl TypeError
      else Inr (count_either (map (\<lambda>r. cell_test (\<lambda>m. m < 0) (average_mark r)) df)
                             (map (\<lambda>r. cell_test (\<lambda>m. m > 10) (average_mark r)) df)))"
  by (simp add: invalid_marks_def series_cmp_cases comp_def)

lemma invalid_ages_0:
  "invalid_ages df = Inr 0 \<longleftrightarrow>
     (\<forall>r\<in>set df. \<not> is_text (age r) \<and> \<not> cell_test (\<lambda>a. a < 1) (age r)
        \<and> \<not> cell_test (\<lambda>a. a > 150) (age r))"
  by (auto simp: invalid_ages_cases count_either_0)

lemma invalid_marks_0:
  "invalid_marks df = Inr 0 \<longleftrightarrow>
     (\<forall>r\<in>set df. \<not> is_text (average_mark r) \<and> \<not> cell_test (\<lambda>m. m < 0) (average_mark r)
        \<and> \<not> cell_test (\<lambda>m. m > 10) (average_mark r))"
  by (auto simp: invalid_marks_cases count_either_0)

lemma invalid_gender_count_0: "invalid_gender_count df = 0 \<longleftrightarrow> list_all gender_isin df"
  by (auto simp: invalid_gender_count_def filter_empty_conv list_all_iff)

text \<open>The flag at the end is the conjunction of all the checks: none is skipped.\<close>

lemma validate_cases:
  "validate_data_before_insertion df =
     (case invalid_ages df of
        Inl e \<Rightarrow> Inl e
      | Inr n_ages \<Rightarrow>
          (case invalid_marks df of
             Inl e \<Rightarrow> Inl e
           | Inr n_marks \<Rightarrow>
               Inr (list_all (\<lambda>column. isnull_sum column df = 0) critical_columns
                    \<and> n_ages = 0 \<and> n_marks = 0 \<and> invalid_gender_count df = 0)))"
  by (simp add: validate_data_before_insertion_def fold_missing invalid_gender_count_0 Let_def
      split: sum.splits)

lemma validate_True_counts:
  "validate_data_before_insertion df = Inr True \<longleftrightarrow>
     (list_all (\<lambda>column. isnull_sum column df = 0) critical_columns
      \<and> invalid_ages df = Inr 0 \<and> invalid_marks df = Inr 0 \<and> invalid_gender_count df = 0)"
  by (auto simp: validate_cases split: sum.splits)

lemma checked_invariants_iff:
  "checked_invariants r \<longleftrightarrow>
     (first_name r \<noteq> None \<and> last_name r \<noteq> None \<and> \<not> isnull (age r) \<and> \<not> isnull (average_mark r)
      \<and> gender r \<noteq> None
      \<and> \<not> is_text (age r) \<and> \<not> cell_test (\<lambda>a. a < 1) (age r) \<and> \<not> cell_test (\<lambda>a. a > 150) (age r)
      \<and> \<not> is_text (average_mark r) \<and> \<not> cell_test (\<lambda>m. m < 0) (average_mark r)
      \<and> \<not> cell_test (\<lambda>m. m > 10) (average_mark r)
      \<and> gender_isin r)"
  by (cases "age r"; cases "average_mark r") (auto simp: checked_invariants_def gender_isin_def)

lemma validate_True_records:
  "validate_data_before_insertion df = Inr True \<longleftrightarrow> (\<forall>r\<in>set df. checked_invariants r)"
  unfolding validate_True_counts checked_invariants_iff invalid_ages_0 invalid_marks_0
    invalid_gender_count_0
  by (auto simp: critical_columns_def isnull_sum_0 list_all_iff)








lemma validate_erase_phone:
  "validate_data_before_insertion (map (\<lambda>r. r\<lparr>phone_number := p r\<rparr>) df)
   = validate_data_before_insertion df"
proof -
  let ?df' = "map (\<lambda>r. r\<lparr>phone_number := p r\<rparr>) df"
  have ma: "map age ?df' = map age df" and mm: "map average_mark ?df' = map average_mark df"
    by (simp_all add: comp_def)
  have a: "invalid_ages ?df' = invalid_ages df"
    unfolding invalid_ages_def ma ..
  have m: "invalid_marks ?df' = invalid_marks df"
    unfolding invalid_marks_def mm ..
  have g: "invalid_gender_count ?df' = invalid_gender_count df"
    by (simp add: invalid_gender_count_def gender_isin_def filter_map comp_def)
  have c: "list_all (\<lambda>column. isnull_sum column ?df' = 0) critical_columns
         = list_all (\<lambda>column. isnull_sum column df = 0) critical_columns"
    by (simp add: critical_columns_def isnull_sum_def filter_map comp_def)
  show ?thesis unfolding validate_cases a m g c ..
qed

lemma agree_except_phone:
  assumes "list_all2 (\<lambda>r r'. r' = r\<lparr>phone_number := phone_number r'\<rparr>) df df'"
  shows "map (\<lambda>r. r\<lparr>phone_number := NaN\<rparr>) df = map (\<lambda>r. r\<lparr>phone_number := NaN\<rparr>) df'"
  using assms
proof (induction rule: list_all2_induct)
  case Nil
  then show ?case by simp
next
  case (Cons r df r' df')
  from Cons.hyps(1) have "r'\<lparr>phone_number := NaN\<rparr> = r\<lparr>phone_number := NaN\<rparr>"
    by (cases r; cases r') simp
  with Cons.IH show ?case by simp
qed

lemma spec_invariants_checked: "spec_invariants r \<Longrightarrow> checked_invariants r"
  by (cases "age r"; cases "average_mark r"; cases "first_name r"; cases "last_name r")
     (auto simp: spec_invariants_def checked_invariants_def)

text \<open>
  C10. Two batches of the same length whose records agree, one by one, on every
  column but the phone number get the same answer from the validation, be it
  \<open>True\<close>, \<open>False\<close> or the \<open>TypeError\<close>: the answer does not depend on the phone
  numbers. And when the records of the first batch meet every invariant of spec
  section 3, the second batch, whose only defects are its phone numbers, passes.
\<close>

theorem validate_ignores_phone_number:
  assumes "list_all2 (\<lambda>r r'. r' = r\<lparr>phone_number := phone_number r'\<rparr>) df df'"
  shows "validate_data_before_insertion df = validate_data_before_insertion df'
       \<and> ((\<forall>r\<in>set df. spec_invariants r) \<longrightarrow> validate_data_before_insertion df' = Inr True)"
proof -
  have "validate_data_before_insertion df
      = validate_data_before_insertion (map (\<lambda>r. r\<lparr>phone_number := NaN\<rparr>) df)"
    by (rule validate_erase_phone[symmetric])
  also have "\<dots> = validate_data_before_insertion (map (\<lambda>r. r\<lparr>phone_number := NaN\<rparr>) df')"
    by (simp add: agree_except_phone[OF assms])
  also have "\<dots> = validate_data_before_insertion df'"
    by (rule validate_erase_phone)
  finally have eq: "validate_data_before_insertion df = validate_data_before_insertion df'" .
  have "validate_data_before_insertion df' = Inr True" if "\<forall>r\<in>set df. spec_invariants r"
  proof -
    from that have "\<forall>r\<in>set df. checked_invariants r"
      using spec_invariants_checked by blast
    then have "validate_data_before_insertion df = Inr True"
      by (simp only: validate_True_records)
    with eq show ?thesis by simp
  qed
  with eq show ?thesis by blast
qed

text \<open>
  An instance: a record that meets every invariant, and the same record with text
  for a phone number, which passes the validation though it breaks the invariant of
  the phone number.
\<close>

theorem validate_ignores_phone_number_witness:
  "list_all2 (\<lambda>r r'. r' = r\<lparr>phone_number := phone_number r'\<rparr>)
     [\<lparr>student_name = Some ''Ann Lee'', age = Num 20, average_mark = Num 7,
       gender = Some ''f'', phone_number = Num 380501234567,
       first_name = Some ''Ann'', last_name = Some ''Lee''\<rparr>]
     [\<lparr>student_name = Some ''Ann Lee'', age = Num 20, average_mark = Num 7,
       gender = Some ''f'', phone_number = Text ''no phone'',
       first_name = Some ''Ann'', last_name = Some ''Lee''\<rparr>]
   \<and> spec_invariants
       \<lparr>student_name = Some ''Ann Lee'', age = Num 20, average_mark = Num 7,
        gender = Some ''f'', phone_number = Num 380501234567,
        first_name = Some ''Ann'', last_name = Some ''Lee''\<rparr>
   \<and> \<not> spec_invariants
       \<lparr>student_name = Some ''Ann Lee'', age = Num 20, average_mark = Num 7,
        gender = Some ''f'', phone_number = Text ''no phone'',
        first_name = Some ''Ann'', last_name = Some ''Lee''\<rparr>
   \<and> validate_data_before_insertion
       [\<lparr>student_name = Some ''Ann Lee'', age = Num 20, average_mark = Num 7,
         gender = Some ''f'', phone_number = Text ''no phone'',
         first_name = Some ''Ann'', last_name = Some ''Lee''\<rparr>] = Inr True
   \<and> validate_data_before_insertion
       [\<lparr>student_name = Some ''Ann Lee'', age = Num 20, average_mark = Num 7,
         gender = Some ''f'', phone_number = Num 380501234567,
         first_name = Some ''Ann'', last_name = Some ''Lee''\<rparr>] = Inr True"
  (is "?agree \<and> ?ok \<and> ?bad \<and> ?pass' \<and> ?pass")
proof -
  have h: ?agree
    by simp
  have ok: ?ok and bad: ?bad
    by (simp_all add: spec_invariants_def)
  from validate_ignores_phone_number[OF h] ok have eq: "?pass'" and "?pass"
    by simp_all
  with h ok bad show ?thesis by blast
qed

section \<open>The table\<close>

lemma col_student_name_Some:
  "col_student_name v = Some s \<Longrightarrow> v \<noteq> None \<and> length s \<le> 100"
  by (cases v) (auto simp: col_student_name_def sql_varchar_def split: if_splits)

lemma col_first_name_Some:
  "col_first_name v = Some s \<Longrightarrow> v \<noteq> None \<and> length s \<le> 50"
  by (cases v) (auto simp: col_first_name_def sql_varchar_def split: if_splits)

lemma col_last_name_Some:
  "col_last_name v = Some s \<Longrightarrow> v \<noteq> None \<and> length s \<le> 50"
  by (cases v) (auto simp: col_last_name_def sql_varchar_def split: if_splits)

lemma col_age_Some:
  "col_age v = Some a \<Longrightarrow> v = Some a \<and> 0 < a \<and> a < 2 ^ 31"
  by (cases v) (auto simp: col_age_def sql_integer_def split: if_splits)

lemma col_average_mark_Some:
  "col_average_mark v = Some m \<Longrightarrow> v \<noteq> None \<and> 0 \<le> m \<and> m \<le> 10"
proof (cases v)
  case None
  assume "col_average_mark v = Some m"
  with None show ?thesis by (simp add: col_average_mark_def)
next
  case (Some x)
  assume a: "col_average_mark v = Some m"
  with Some obtain y where y: "sql_numeric 4 2 x = Some y"
    by (cases "sql_numeric 4 2 x") (auto simp: col_average_mark_def)
  with a Some have "numeric_ge y 0 \<and> numeric_le y 10 \<and> y = Numeric m"
    by (cases y) (auto simp: col_average_mark_def split: if_splits)
  with Some show ?thesis by auto
qed

lemma col_gender_Some:
  "col_gender v = Some g \<Longrightarrow> v \<noteq> None \<and> (g = ''m'' \<or> g = ''f'')"
proof (cases v)
  case None
  assume "col_gender v = Some g"
  with None show ?thesis by (simp add: col_gender_def)
next
  case (Some s)
  assume a: "col_gender v = Some g"
  with Some obtain c where c: "sql_char 1 s = Some c"
    by (cases "sql_char 1 s") (auto simp: col_gender_def)
  with a Some have "g = ''m'' \<or> g = ''f''"
    by (auto simp: col_gender_def split: if_splits)
  with Some show ?thesis by simp
qed

lemma col_phone_number_Some:
  "col_phone_number v = Some p \<Longrightarrow> p = v \<and> (case p of None \<Rightarrow> True | Some i \<Rightarrow> - (2 ^ 63) \<le> i \<and> i < 2 ^ 63)"
  by (cases v) (auto simp: col_phone_number_def sql_bigint_def split: if_splits)

lemma col_phone_number_None: "col_phone_number None = Some None"
  by (simp add: col_phone_number_def)

lemma students_insert_Some:
  assumes "students_insert v = Some row"
  shows "col_student_name (v_student_name v) = Some (db_student_name row)
       \<and> col_first_name (v_first_name v) = Some (db_first_name row)
       \<and> col_last_name (v_last_name v) = Some (db_last_name row)
       \<and> col_age (v_age v) = Some (db_age row)
       \<and> col_average_mark (v_average_mark v) = Some (db_average_mark row)
       \<and> col_gender (v_gender v) = Some (db_gender row)
       \<and> col_phone_number (v_phone_number v) = Some (db_phone_number row)"
  using assms unfolding students_insert_def
  by (auto simp: bind_eq_Some_conv)

lemma students_insert_null_phone:
  assumes "students_insert v = Some row"
  shows "students_insert (v\<lparr>v_phone_number := None\<rparr>) = Some (row\<lparr>db_phone_number := None\<rparr>)"
  using assms unfolding students_insert_def
  by (auto simp: bind_eq_Some_conv col_phone_number_None)

lemma create_students_table_exists:
  "working (fst (create_students_table conn)) = Some (case working conn of None \<Rightarrow> [] | Some rows \<Rightarrow> rows)
   \<and> committed (fst (create_students_table conn)) = working (fst (create_students_table conn))"
  by (simp add: create_students_table_def commit_def begin_transaction_def split: option.splits)

text \<open>Setting the schema up twice is setting it up once.\<close>

lemma create_students_table_idempotent:
  "create_students_table (fst (create_students_table conn)) = create_students_table conn"
  by (cases conn)
     (simp add: create_students_table_def commit_def begin_transaction_def split: option.splits)

text \<open>
  C6, as the code has it. After \<open>create_students_table\<close> the table exists, and an
  \<open>INSERT\<close> into it succeeds only with values that are not \<open>NULL\<close> in the six required
  columns; the row it stores has a positive age (bounded above by the \<open>INTEGER\<close> type
  only), an average mark in [0, 10], gender m or f, names within the declared
  lengths, and the phone number as given, \<open>NULL\<close> included. A row that is accepted is
  accepted with a \<open>NULL\<close> phone number too.
\<close>

theorem create_students_table_constraints:
  assumes "execute_insert (fst (create_students_table conn)) v = (conn', None)"
  shows "\<exists>rows row.
       working conn' = Some (rows @ [row])
       \<and> v_student_name v \<noteq> None \<and> v_first_name v \<noteq> None \<and> v_last_name v \<noteq> None
       \<and> v_age v \<noteq> None \<and> v_average_mark v \<noteq> None \<and> v_gender v \<noteq> None
       \<and> 0 < db_age row \<and> db_age row < 2 ^ 31
       \<and> 0 \<le> db_average_mark row \<and> db_average_mark row \<le> 10
       \<and> (db_gender row = ''m'' \<or> db_gender row = ''f'')
       \<and> length (db_student_name row) \<le> 100 \<and> length (db_first_name row) \<le> 50
       \<and> length (db_last_name row) \<le> 50
       \<and> db_phone_number row = v_phone_number v
       \<and> students_insert (v\<lparr>v_phone_number := None\<rparr>) = Some (row\<lparr>db_phone_number := None\<rparr>)"
proof -
  let ?c = "fst (create_students_table conn)"
  obtain rows where rows: "working ?c = Some rows"
    using create_students_table_exists[of conn] by blast
  from assms rows obtain row where row: "students_insert v = Some row"
    and conn': "conn' = begin_transaction (?c\<lparr>working := Some (rows @ [row])\<rparr>)"
    by (cases "students_insert v") (auto simp: execute_insert_def)
  note cols = students_insert_Some[OF row]
  from cols have n: "v_student_name v \<noteq> None \<and> length (db_student_name row) \<le> 100"
    using col_student_name_Some by blast
  from cols have f: "v_first_name v \<noteq> None \<and> length (db_first_name row) \<le> 50"
    using col_first_name_Some by blast
  from cols have l: "v_last_name v \<noteq> None \<and> length (db_last_name row) \<le> 50"
    using col_last_name_Some by blast
  from cols have a: "v_age v = Some (db_age row) \<and> 0 < db_age row \<and> db_age row < 2 ^ 31"
    using col_age_Some by blast
  from cols have m: "v_average_mark v \<noteq> None \<and> 0 \<le> db_average_mark row \<and> db_average_mark row \<le> 10"
    using col_average_mark_Some by blast
  from cols have g: "v_gender v \<noteq> None \<and> (db_gender row = ''m'' \<or> db_gender row = ''f'')"
    using col_gender_Some by blast
  from cols have p: "db_phone_number row = v_phone_number v"
    using col_phone_number_Some by blast
  have w: "working conn' = Some (rows @ [row])"
    by (simp add: conn' begin_transaction_def)
  from w n f l a m g p students_insert_null_phone[OF row] show ?thesis
    by auto
qed

text \<open>
  An instance: a table created on a connection without one, and a row with a
  \<open>NULL\<close> phone number inserted into it.
\<close>

theorem create_students_table_constraints_witness:
  "execute_insert (fst (create_students_table \<lparr>committed = None, working = None, status = STATUS_READY\<rparr>))
     \<lparr>v_student_name = Some ''Ann Lee'', v_first_name = Some ''Ann'', v_last_name = Some ''Lee'',
      v_age = Some 20, v_average_mark = Some (Numeric 7), v_gender = Some ''f'',
      v_phone_number = None\<rparr>
   = (\<lparr>committed = Some [],
       working = Some [\<lparr>db_student_name = ''Ann Lee'', db_first_name = ''Ann'',
         db_last_name = ''Lee'', db_age = 20, db_average_mark = 7, db_gender = ''f'',
         db_phone_number = None\<rparr>], status = STATUS_BEGIN\<rparr>, None)
   \<and> (\<exists>rows row.
       Some [\<lparr>db_student_name = ''Ann Lee'', db_first_name = ''Ann'',
         db_last_name = ''Lee'', db_age = 20, db_average_mark = 7, db_gender = ''f'',
         db_phone_number = None\<rparr>] = Some (rows @ [row])
       \<and> 0 < db_age row \<and> db_age row < 2 ^ 31
       \<and> 0 \<le> db_average_mark row \<and> db_average_mark row \<le> 10
       \<and> (db_gender row = ''m'' \<or> db_gender row = ''f'')
       \<and> db_phone_number row = None)"
proof -
  have h: "execute_insert (fst (create_students_table \<lparr>committed = None, working = None, status = STATUS_READY\<rparr>))
     \<lparr>v_student_name = Some ''Ann Lee'', v_first_name = Some ''Ann'', v_last_name = Some ''Lee'',
      v_age = Some 20, v_average_mark = Some (Numeric 7), v_gender = Some ''f'',
      v_phone_number = None\<rparr>
   = (\<lparr>committed = Some [],
       working = Some [\<lparr>db_student_name = ''Ann Lee'', db_first_name = ''Ann'',
         db_last_name = ''Lee'', db_age = 20, db_average_mark = 7, db_gender = ''f'',
         db_phone_number = None\<rparr>], status = STATUS_BEGIN\<rparr>, None)"
    by code_simp
  from create_students_table_constraints[OF h] h show ?thesis
    by simp
qed

text \<open>
  C6 as stated fails on the upper bound of the age: the table accepts, and stores,
  an age of 200.
\<close>

theorem students_table_accepts_age_200:
  "execute_insert (fst (create_students_table \<lparr>committed = None, working = None, status = STATUS_READY\<rparr>))
     \<lparr>v_student_name = Some ''Ann Lee'', v_first_name = Some ''Ann'', v_last_name = Some ''Lee'',
      v_age = Some 200, v_average_mark = Some (Numeric 7), v_gender = Some ''f'',
      v_phone_number = None\<rparr>
   = (\<lparr>committed = Some [],
       working = Some [\<lparr>db_student_name = ''Ann Lee'', db_first_name = ''Ann'',
         db_last_name = ''Lee'', db_age = 200, db_average_mark = 7, db_gender = ''f'',
         db_phone_number = None\<rparr>], status = STATUS_BEGIN\<rparr>, None)"
  by code_simp

section \<open>The batch writer\<close>

lemma execute_insert_committed: "committed (fst (execute_insert conn v)) = committed conn"
  by (simp add: execute_insert_def begin_transaction_def split: option.splits)

lemma executemany_committed: "committed (fst (executemany conn vs)) = committed conn"
proof (induction vs arbitrary: conn)
  case Nil
  then show ?case by simp
next
  case (Cons v vs)
  obtain c e where ce: "execute_insert conn v = (c, e)" by (cases "execute_insert conn v")
  then have "committed c = committed conn"
    using execute_insert_committed[of conn v] by simp
  with ce Cons.IH[of c] show ?case by (cases e) simp_all
qed

lemma executemany_fails:
  "\<exists>v\<in>set vs. students_insert v = None \<Longrightarrow> snd (executemany conn vs) \<noteq> None"
proof (induction vs arbitrary: conn)
  case Nil
  then show ?case by simp
next
  case (Cons v vs)
  show ?case
  proof (cases "execute_insert conn v")
    case (Pair c e)
    show ?thesis
    proof (cases e)
      case (Some err)
      with Pair show ?thesis by simp
    next
      case None
      with Pair have "students_insert v \<noteq> None"
        by (auto simp: execute_insert_def split: option.splits)
      with Cons.prems have "\<exists>v\<in>set vs. students_insert v = None" by auto
      from Cons.IH[OF this, of c] Pair None show ?thesis by simp
    qed
  qed
qed

text \<open>
  \<open>executemany\<close> stops at the first tuple the table refuses; the rows of the tuples
  before it are then in the open transaction.
\<close>

lemma executemany_partial:
  assumes "working conn = Some rows"
    and "\<forall>v\<in>set vs. students_insert v \<noteq> None"
    and "students_insert bad = None"
  shows "executemany conn (vs @ bad # rest)
       = (conn\<lparr>working := Some (rows @ map (\<lambda>v. the (students_insert v)) vs),
               status := STATUS_BEGIN\<rparr>, Some DatabaseError)"
  using assms(1,2)
proof (induction vs arbitrary: conn rows)
  case Nil
  with assms(3) show ?case by (cases conn) (simp add: execute_insert_def begin_transaction_def)
next
  case (Cons v vs)
  from Cons.prems obtain r where r: "students_insert v = Some r" by auto
  let ?c = "begin_transaction (conn\<lparr>working := Some (rows @ [r])\<rparr>)"
  from Cons.prems r have step: "execute_insert conn v = (?c, None)"
    by (simp add: execute_insert_def)
  have "working ?c = Some (rows @ [r])" by (simp add: begin_transaction_def)
  from Cons.IH[OF this] Cons.prems(2)
  have "executemany ?c (vs @ bad # rest)
      = (?c\<lparr>working := Some ((rows @ [r]) @ map (\<lambda>v. the (students_insert v)) vs),
            status := STATUS_BEGIN\<rparr>, Some DatabaseError)"
    by simp
  with step r show ?case by (simp add: begin_transaction_def)
qed

lemma executemany_all:
  assumes "working conn = Some rows" and "\<forall>v\<in>set vs. students_insert v \<noteq> None"
  shows "snd (executemany conn vs) = None
       \<and> working (fst (executemany conn vs)) = Some (rows @ map (\<lambda>v. the (students_insert v)) vs)"
  using assms
proof (induction vs arbitrary: conn rows)
  case Nil
  then show ?case by simp
next
  case (Cons v vs)
  from Cons.prems obtain r where r: "students_insert v = Some r" by auto
  let ?c = "begin_transaction (conn\<lparr>working := Some (rows @ [r])\<rparr>)"
  from Cons.prems r have step: "execute_insert conn v = (?c, None)"
    by (simp add: execute_insert_def)
  have "working ?c = Some (rows @ [r])" by (simp add: begin_transaction_def)
  from Cons.IH[OF this] Cons.prems(2)
  have "snd (executemany ?c vs) = None
      \<and> working (fst (executemany ?c vs)) = Some ((rows @ [r]) @ map (\<lambda>v. the (students_insert v)) vs)"
    by simp
  with step r show ?case by simp
qed

lemma rollback_fields:
  "committed (rollback c) = committed c \<and> working (rollback c) = committed c
   \<and> status (rollback c) = STATUS_READY"
  by (simp add: rollback_def)

lemma begin_transaction_fields:
  "committed (begin_transaction c) = committed c \<and> working (begin_transaction c) = working c
   \<and> status (begin_transaction c) = STATUS_BEGIN"
  by (simp add: begin_transaction_def)

lemma length_insertion_data: "insertion_data df = Inr vs \<Longrightarrow> length vs = length df"
  by (induction df arbitrary: vs) (auto split: sum.splits)

lemma executemany_working:
  "working conn \<noteq> None \<Longrightarrow> working (fst (executemany conn vs)) \<noteq> None"
proof (induction vs arbitrary: conn)
  case Nil
  then show ?case by simp
next
  case (Cons v vs)
  obtain c e where ce: "execute_insert conn v = (c, e)" by (cases "execute_insert conn v")
  with Cons.prems have wc: "working c \<noteq> None"
    by (auto simp: execute_insert_def begin_transaction_def split: option.splits)
  from Cons.IH[OF wc] wc ce show ?case by (cases e) auto
qed

lemma insert_rows_not_returned:
  assumes "\<not> returned (snd (insert_rows conn df))" and "working conn \<noteq> None"
  shows "committed (fst (insert_rows conn df)) = committed conn
       \<and> working (fst (insert_rows conn df)) = committed conn
       \<and> status (fst (insert_rows conn df)) = STATUS_READY"
proof (cases "insertion_data df")
  case (Inl e)
  then show ?thesis
    by (simp add: insert_rows_def rollback_fields)
next
  case (Inr vs)
  obtain c1 e where ex: "executemany conn vs = (c1, e)" by (cases "executemany conn vs")
  then have c1: "committed c1 = committed conn"
    using executemany_committed[of conn vs] by simp
  from ex have w: "working c1 \<noteq> None"
    using executemany_working[OF assms(2), of vs] by simp
  show ?thesis
  proof (cases e)
    case (Some err)
    with Inr ex c1 show ?thesis
      by (simp add: insert_rows_def rollback_fields)
  next
    case None
    with Inr ex w have "returned (snd (insert_rows conn df))"
      by (auto simp: insert_rows_def select_count_def commit_def begin_transaction_def)
    with assms(1) show ?thesis by simp
  qed
qed

lemma insert_rows_fails:
  assumes "insertion_data df = Inr vs" and "\<exists>v\<in>set vs. students_insert v = None"
  shows "snd (insert_rows conn df) = DatabaseFailure"
proof -
  obtain c1 e where ex: "executemany conn vs = (c1, e)" by (cases "executemany conn vs")
  with executemany_fails[OF assms(2), of conn] obtain err where "e = Some err" by auto
  with ex assms(1) show ?thesis by (simp add: insert_rows_def)
qed

text \<open>
  When every tuple is accepted the batch is committed after the rows that were
  there, and the count read for the message is the count before plus the batch.
\<close>

lemma insert_rows_success:
  assumes "working conn = Some rows" and "insertion_data df = Inr vs"
    and "\<forall>v\<in>set vs. students_insert v \<noteq> None"
  shows "insert_rows conn df
       = (\<lparr>committed = Some (rows @ map (\<lambda>v. the (students_insert v)) vs),
           working = Some (rows @ map (\<lambda>v. the (students_insert v)) vs),
           status = STATUS_BEGIN\<rparr>,
          Inserted (length df) (length rows + length df))"
proof -
  obtain c1 e where ex: "executemany conn vs = (c1, e)" by (cases "executemany conn vs")
  with executemany_all[OF assms(1,3)] have e: "e = None"
    and w: "working c1 = Some (rows @ map (\<lambda>v. the (students_insert v)) vs)"
    by simp_all
  from ex e w assms(2) length_insertion_data[OF assms(2)] show ?thesis
    by (cases c1) (simp add: insert_rows_def commit_def select_count_def begin_transaction_def)
qed

text \<open>The four ways out of \<open>insert_student_data\<close>.\<close>

lemma insert_student_data_cases:
  "insert_student_data conn df stdin = (rollback (begin_transaction conn), DatabaseFailure)
   \<or> insert_student_data conn df stdin = (rollback (begin_transaction conn), UnexpectedFailure)
   \<or> insert_student_data conn df stdin = (begin_transaction conn, Cancelled)
   \<or> (insert_student_data conn df stdin = insert_rows (begin_transaction conn) df
       \<and> working conn \<noteq> None)"
proof (cases "working conn")
  case None
  then have "insert_student_data conn df stdin = (rollback (begin_transaction conn), DatabaseFailure)"
    by (simp add: insert_student_data_def select_count_def)
  then show ?thesis by simp
next
  case (Some rows)
  show ?thesis
  proof (cases "0 < length rows")
    case False
    with Some have "insert_student_data conn df stdin = insert_rows (begin_transaction conn) df"
      by (simp add: insert_student_data_def select_count_def)
    with Some show ?thesis by simp
  next
    case True
    show ?thesis
    proof (cases stdin)
      case None
      with Some True
      have "insert_student_data conn df stdin = (rollback (begin_transaction conn), UnexpectedFailure)"
        by (simp add: insert_student_data_def select_count_def py_input_def)
      then show ?thesis by simp
    next
      case (Some line)
      show ?thesis
      proof (cases "py_strip (py_lower line) = ''y''")
        case yes: True
        with \<open>working conn = Some rows\<close> True Some
        have "insert_student_data conn df stdin = insert_rows (begin_transaction conn) df"
          by (simp add: insert_student_data_def select_count_def py_input_def)
        with \<open>working conn = Some rows\<close> show ?thesis by simp
      next
        case no: False
        with \<open>working conn = Some rows\<close> True Some
        have "insert_student_data conn df stdin = (begin_transaction conn, Cancelled)"
          by (simp add: insert_student_data_def select_count_def py_input_def)
        then show ?thesis by simp
      qed
    qed
  qed
qed

lemma insert_student_data_not_returned:
  assumes "\<not> returned (snd (insert_student_data conn df stdin))"
  shows "committed (fst (insert_student_data conn df stdin)) = committed conn
       \<and> (working conn = committed conn \<longrightarrow>
            working (fst (insert_student_data conn df stdin)) = working conn)
       \<and> (snd (insert_student_data conn df stdin) = Cancelled
          \<or> status (fst (insert_student_data conn df stdin)) = STATUS_READY)"
proof -
  from insert_student_data_cases[of conn df stdin]
  consider (failed) "insert_student_data conn df stdin = (rollback (begin_transaction conn), DatabaseFailure)
                     \<or> insert_student_data conn df stdin = (rollback (begin_transaction conn), UnexpectedFailure)"
    | (cancelled) "insert_student_data conn df stdin = (begin_transaction conn, Cancelled)"
    | (rows) "insert_student_data conn df stdin = insert_rows (begin_transaction conn) df"
        "working conn \<noteq> None"
    by blast
  then show ?thesis
  proof cases
    case failed
    then show ?thesis
      by (auto simp: rollback_fields begin_transaction_fields)
  next
    case cancelled
    then show ?thesis by (simp add: begin_transaction_fields)
  next
    case rows
    from rows(2) have w: "working (begin_transaction conn) \<noteq> None"
      by (simp add: begin_transaction_fields)
    from assms rows(1) have "\<not> returned (snd (insert_rows (begin_transaction conn) df))"
      by simp
    from insert_rows_not_returned[OF this w] rows(1) show ?thesis
      by (simp add: begin_transaction_fields)
  qed
qed

lemma insert_student_data_fails:
  assumes "insertion_data df = Inr vs" and "\<exists>v\<in>set vs. students_insert v = None"
  shows "\<not> returned (snd (insert_student_data conn df stdin))"
proof -
  have r: "\<not> returned (snd (insert_rows (begin_transaction conn) df))"
    using insert_rows_fails[OF assms, of "begin_transaction conn"] by simp
  from insert_student_data_cases[of conn df stdin] r show ?thesis
    by auto
qed

text \<open>
  C1. When the table refuses one tuple of the batch, whichever it is,
  \<open>insert_student_data\<close> does not return \<open>True\<close> and the committed content of the
  table is what it was before the call; unless the operator has cancelled, in which
  case no insert was tried, the transaction has been rolled back and the connection
  is ready. On a connection with no uncommitted work the session sees the same rows
  after the attempt as before it, and the row count read after the attempt is the
  row count read before it. On a connection that has just been opened, as the one of
  \<open>main\<close>, the whole connection is as before after an attempt that was not
  cancelled.
\<close>

theorem insert_student_data_atomic:
  assumes "insertion_data df = Inr vs" and "v \<in> set vs" and "students_insert v = None"
  shows "\<not> returned (snd (insert_student_data conn df stdin))
       \<and> committed (fst (insert_student_data conn df stdin)) = committed conn
       \<and> (snd (insert_student_data conn df stdin) = Cancelled
          \<or> status (fst (insert_student_data conn df stdin)) = STATUS_READY)
       \<and> (working conn = committed conn \<longrightarrow>
            working (fst (insert_student_data conn df stdin)) = working conn
            \<and> snd (select_count (fst (insert_student_data conn df stdin)))
              = snd (select_count conn))
       \<and> (working conn = committed conn \<and> status conn = STATUS_READY
            \<and> snd (insert_student_data conn df stdin) \<noteq> Cancelled
          \<longrightarrow> fst (insert_student_data conn df stdin) = conn)"
proof -
  let ?r = "insert_student_data conn df stdin"
  from assms(2,3) have "\<exists>v\<in>set vs. students_insert v = None" by blast
  from insert_student_data_fails[OF assms(1) this]
  have nr: "\<not> returned (snd ?r)" .
  note f = insert_student_data_not_returned[OF nr]
  have cnt: "snd (select_count (fst ?r)) = snd (select_count conn)"
    if "working (fst ?r) = working conn"
    using that by (simp add: select_count_def)
  have whole: "fst ?r = conn"
    if "working conn = committed conn" "status conn = STATUS_READY" "snd ?r \<noteq> Cancelled"
  proof -
    from f that have "committed (fst ?r) = committed conn" "working (fst ?r) = working conn"
      "status (fst ?r) = status conn"
      by simp_all
    then show ?thesis by (cases "fst ?r"; cases conn) simp
  qed
  from nr f cnt whole show ?thesis by blast
qed

text \<open>
  An instance: the table holds one row, the operator answers y, and the second of
  three records has a first name of 51 characters, which \<open>VARCHAR(50)\<close> refuses. The
  first record is in the transaction when \<open>executemany\<close> stops; after the call the
  connection is as before, with one row.
\<close>

theorem insert_student_data_atomic_witness:
  "executemany
     \<lparr>committed = Some [\<lparr>db_student_name = ''Old Row'', db_first_name = ''Old'',
         db_last_name = ''Row'', db_age = 30, db_average_mark = 5, db_gender = ''m'',
         db_phone_number = None\<rparr>],
      working = Some [\<lparr>db_student_name = ''Old Row'', db_first_name = ''Old'',
         db_last_name = ''Row'', db_age = 30, db_average_mark = 5, db_gender = ''m'',
         db_phone_number = None\<rparr>],
      status = STATUS_READY\<rparr>
     [\<lparr>v_student_name = Some ''Ann Lee'', v_first_name = Some ''Ann'', v_last_name = Some ''Lee'',
       v_age = Some 20, v_average_mark = Some (Numeric 7), v_gender = Some ''f'',
       v_phone_number = None\<rparr>,
      \<lparr>v_student_name = Some ''W Smith'',
       v_first_name = Some ''Wolfeschlegelsteinhausenbergerdorffwelchevoralternw'',
       v_last_name = Some ''Smith'',
       v_age = Some 21, v_average_mark = Some (Numeric 8), v_gender = Some ''m'',
       v_phone_number = None\<rparr>,
      \<lparr>v_student_name = Some ''Bo Chen'', v_first_name = Some ''Bo'', v_last_name = Some ''Chen'',
       v_age = Some 22, v_average_mark = Some (Numeric 9), v_gender = Some ''m'',
       v_phone_number = None\<rparr>]
   = (\<lparr>committed = Some [\<lparr>db_student_name = ''Old Row'', db_first_name = ''Old'',
         db_last_name = ''Row'', db_age = 30, db_average_mark = 5, db_gender = ''m'',
         db_phone_number = None\<rparr>],
       working = Some [\<lparr>db_student_name = ''Old Row'', db_first_name = ''Old'',
         db_last_name = ''Row'', db_age = 30, db_average_mark = 5, db_gender = ''m'',
         db_phone_number = None\<rparr>,
        \<lparr>db_student_name = ''Ann Lee'', db_first_name = ''Ann'',
         db_last_name = ''Lee'', db_age = 20, db_average_mark = 7, db_gender = ''f'',
         db_phone_number = None\<rparr>],
       status = STATUS_BEGIN\<rparr>, Some DatabaseError)
   \<and> insert_student_data
     \<lparr>committed = Some [\<lparr>db_student_name = ''Old Row'', db_first_name = ''Old'',
         db_last_name = ''Row'', db_age = 30, db_average_mark = 5, db_gender = ''m'',
         db_phone_number = None\<rparr>],
      working = Some [\<lparr>db_student_name = ''Old Row'', db_first_name = ''Old'',
         db_last_name = ''Row'', db_age = 30, db_average_mark = 5, db_gender = ''m'',
         db_phone_number = None\<rparr>],
      status = STATUS_READY\<rparr>
     [\<lparr>student_name = Some ''Ann Lee'', age = Num 20, average_mark = Num 7,
       gender = Some ''f'', phone_number = NaN,
       first_name = Some ''Ann'', last_name = Some ''Lee''\<rparr>,
      \<lparr>student_name = Some ''W Smith'', age = Num 21, average_mark = Num 8,
       gender = Some ''m'', phone_number = NaN,
       first_name = Some ''Wolfeschlegelsteinhausenbergerdorffwelchevoralternw'',
       last_name = Some ''Smith''\<rparr>,
      \<lparr>student_name = Some ''Bo Chen'', age = Num 22, average_mark = Num 9,
       gender = Some ''m'', phone_number = NaN,
       first_name = Some ''Bo'', last_name = Some ''Chen''\<rparr>]
     (Some ''y'')
   = (\<lparr>committed = Some [\<lparr>db_student_name = ''Old Row'', db_first_name = ''Old'',
         db_last_name = ''Row'', db_age = 30, db_average_mark = 5, db_gender = ''m'',
         db_phone_number = None\<rparr>],
       working = Some [\<lparr>db_student_name = ''Old Row'', db_first_name = ''Old'',
         db_last_name = ''Row'', db_age = 30, db_average_mark = 5, db_gender = ''m'',
         db_phone_number = None\<rparr>],
       status = STATUS_READY\<rparr>, DatabaseFailure)"
  (is "executemany ?conn ?vs = ?partial \<and> insert_student_data ?conn ?df ?stdin = (?conn, DatabaseFailure)")
proof -
  have h1: "insertion_data ?df = Inr ?vs"
    by code_simp
  have h2: "?vs ! 1 \<in> set ?vs"
    by simp
  have h3: "students_insert (?vs ! 1) = None"
    by code_simp
  have ex: "executemany ?conn ?vs = ?partial"
    by code_simp
  have out: "snd (insert_student_data ?conn ?df ?stdin) = DatabaseFailure"
    by code_simp
  from insert_student_data_atomic[OF h1 h2 h3, of ?conn ?stdin] out
  have "fst (insert_student_data ?conn ?df ?stdin) = ?conn"
    by simp
  with out have "insert_student_data ?conn ?df ?stdin = (?conn, DatabaseFailure)"
    by (cases "insert_student_data ?conn ?df ?stdin") simp
  with ex show ?thesis by (rule conjI)
qed

text \<open>
  C3, as the code has it. When the table holds at least one row and the operator's
  answer to the prompt is not y, \<open>insert_student_data\<close> returns by its cancelled
  branch, whose value is \<open>False\<close>: no \<open>INSERT\<close> has run, nothing was committed or
  rolled back, and the rows and the row count are as before. The connection is not as
  before in one respect: the count of the rows has opened a transaction, and the
  function returns with that transaction open.
\<close>

theorem insert_student_data_refused:
  assumes "working conn = Some rows" and "rows \<noteq> []"
    and "stdin = Some line" and "py_strip (py_lower line) \<noteq> ''y''"
  shows "insert_student_data conn df stdin = (conn\<lparr>status := STATUS_BEGIN\<rparr>, Cancelled)
       \<and> returned (snd (insert_student_data conn df stdin)) = False
       \<and> committed (fst (insert_student_data conn df stdin)) = committed conn
       \<and> working (fst (insert_student_data conn df stdin)) = working conn
       \<and> snd (select_count (fst (insert_student_data conn df stdin))) = Inr (length rows)
       \<and> snd (select_count conn) = Inr (length rows)"
  using assms
  by (simp add: insert_student_data_def select_count_def py_input_def begin_transaction_def)

text \<open>
  An instance: one row in the table, the connection ready, and the answer No.
\<close>

theorem insert_student_data_refused_witness:
  "py_strip (py_lower '' No '') \<noteq> ''y''
   \<and> insert_student_data
     \<lparr>committed = Some [\<lparr>db_student_name = ''Old Row'', db_first_name = ''Old'',
         db_last_name = ''Row'', db_age = 30, db_average_mark = 5, db_gender = ''m'',
         db_phone_number = None\<rparr>],
      working = Some [\<lparr>db_student_name = ''Old Row'', db_first_name = ''Old'',
         db_last_name = ''Row'', db_age = 30, db_average_mark = 5, db_gender = ''m'',
         db_phone_number = None\<rparr>],
      status = STATUS_READY\<rparr>
     [\<lparr>student_name = Some ''Ann Lee'', age = Num 20, average_mark = Num 7,
       gender = Some ''f'', phone_number = NaN,
       first_name = Some ''Ann'', last_name = Some ''Lee''\<rparr>]
     (Some '' No '')
   = (\<lparr>committed = Some [\<lparr>db_student_name = ''Old Row'', db_first_name = ''Old'',
         db_last_name = ''Row'', db_age = 30, db_average_mark = 5, db_gender = ''m'',
         db_phone_number = None\<rparr>],
       working = Some [\<lparr>db_student_name = ''Old Row'', db_first_name = ''Old'',
         db_last_name = ''Row'', db_age = 30, db_average_mark = 5, db_gender = ''m'',
         db_phone_number = None\<rparr>],
       status = STATUS_BEGIN\<rparr>, Cancelled)"
  (is "?declined \<and> insert_student_data ?conn ?df ?stdin = (?conn', Cancelled)")
proof -
  have h: ?declined
    by code_simp
  have w: "working ?conn = Some [\<lparr>db_student_name = ''Old Row'', db_first_name = ''Old'',
         db_last_name = ''Row'', db_age = 30, db_average_mark = 5, db_gender = ''m'',
         db_phone_number = None\<rparr>]"
    by simp
  from insert_student_data_refused[OF w _ refl h, of ?df] h show ?thesis
    by simp
qed

text \<open>
  C3 as stated fails on the transaction. The connection is ready, with no
  transaction, when the function is called on a table of one row; the operator
  answers n; the function returns cancelled with the connection in a transaction.
\<close>

theorem insert_student_data_refused_in_transaction:
  "status (fst (insert_student_data
     \<lparr>committed = Some [\<lparr>db_student_name = ''Old Row'', db_first_name = ''Old'',
         db_last_name = ''Row'', db_age = 30, db_average_mark = 5, db_gender = ''m'',
         db_phone_number = None\<rparr>],
      working = Some [\<lparr>db_student_name = ''Old Row'', db_first_name = ''Old'',
         db_last_name = ''Row'', db_age = 30, db_average_mark = 5, db_gender = ''m'',
         db_phone_number = None\<rparr>],
      status = STATUS_READY\<rparr>
     [\<lparr>student_name = Some ''Ann Lee'', age = Num 20, average_mark = Num 7,
       gender = Some ''f'', phone_number = NaN,
       first_name = Some ''Ann'', last_name = Some ''Lee''\<rparr>]
     (Some ''n''))) = STATUS_BEGIN
   \<and> snd (insert_student_data
     \<lparr>committed = Some [\<lparr>db_student_name = ''Old Row'', db_first_name = ''Old'',
         db_last_name = ''Row'', db_age = 30, db_average_mark = 5, db_gender = ''m'',
         db_phone_number = None\<rparr>],
      working = Some [\<lparr>db_student_name = ''Old Row'', db_first_name = ''Old'',
         db_last_name = ''Row'', db_age = 30, db_average_mark = 5, db_gender = ''m'',
         db_phone_number = None\<rparr>],
      status = STATUS_READY\<rparr>
     [\<lparr>student_name = Some ''Ann Lee'', age = Num 20, average_mark = Num 7,
       gender = Some ''f'', phone_number = NaN,
       first_name = Some ''Ann'', last_name = Some ''Lee''\<rparr>]
     (Some ''n'')) = Cancelled"
  by code_simp

text \<open>
  The answer is compared after \<open>lower\<close> and \<open>strip\<close>: Y followed by a no-break
  space is the answer y.
\<close>

lemma answer_y_no_break_space: "py_strip (py_lower [CHR ''Y'', CHR 0xA0]) = ''y''"
  by code_simp

section \<open>The verification after the commit\<close>

lemma sql_sum_zeros: "sql_sum (map (\<lambda>r. 0) rows) = (if rows = [] then None else Some 0)"
  by (simp add: sql_sum_def)

lemma verify_insertion_success_eq:
  "verify_insertion_success conn expected_count
     = (conn\<lparr>status := STATUS_BEGIN\<rparr>,
        case working conn of
          None \<Rightarrow> False
        | Some rows \<Rightarrow> expected_count \<le> length rows \<and> rows \<noteq> [])"
  by (auto simp: verify_insertion_success_def select_count_def begin_transaction_def
      null_counts_def sql_sum_zeros split: option.splits)

lemma insert_rows_returned:
  assumes "returned (snd (insert_rows conn df))"
  shows "working (fst (insert_rows conn df)) = committed (fst (insert_rows conn df))"
proof (cases "insertion_data df")
  case (Inl e)
  with assms show ?thesis by (simp add: insert_rows_def)
next
  case (Inr vs)
  obtain c1 e where ex: "executemany conn vs = (c1, e)" by (cases "executemany conn vs")
  show ?thesis
  proof (cases e)
    case (Some err)
    with assms Inr ex show ?thesis by (simp add: insert_rows_def)
  next
    case None
    show ?thesis
    proof (cases "working c1")
      case wn: None
      with assms Inr ex None show ?thesis
        by (simp add: insert_rows_def select_count_def commit_def begin_transaction_def)
    next
      case (Some rows)
      with Inr ex None show ?thesis
        by (simp add: insert_rows_def select_count_def commit_def begin_transaction_def)
    qed
  qed
qed

lemma insert_student_data_returned:
  assumes "returned (snd (insert_student_data conn df stdin))"
  shows "working (fst (insert_student_data conn df stdin))
       = committed (fst (insert_student_data conn df stdin))"
proof -
  from assms insert_student_data_cases[of conn df stdin]
  have "insert_student_data conn df stdin = insert_rows (begin_transaction conn) df"
    by auto
  with assms insert_rows_returned[of "begin_transaction conn" df] show ?thesis by simp
qed

lemma close_connection_fields:
  "committed (close_connection c) = committed c \<and> working (close_connection c) = committed c
   \<and> status (close_connection c) = STATUS_READY"
  by (simp add: close_connection_def rollback_def)

text \<open>
  C8, as the code has it. \<open>verify_insertion_success\<close> reads the row count again and
  passes when it is at least the expected count and the table is not empty (the null
  counts of an empty table are \<open>NULL\<close>, not 0); it changes no row and leaves the
  connection in the transaction of its queries, without a rollback. \<open>main\<close> gives it
  the number of records of the batch as the expected count. Whatever the verification
  answers, a run whose insertion returned \<open>True\<close> ends with exit status 0 and, the
  connection being closed, with the table as the insertion committed it: a failed
  verification is reported only, and the committed batch stays.
\<close>

theorem verify_insertion_success_nonfatal:
  "verify_insertion_success conn expected_count
     = (conn\<lparr>status := STATUS_BEGIN\<rparr>,
        case working conn of
          None \<Rightarrow> False
        | Some rows \<Rightarrow> expected_count \<le> length rows \<and> rows \<noteq> [])
   \<and> (validate_data_before_insertion df = Inr True
        \<and> returned (snd (insert_student_data conn df stdin))
      \<longrightarrow> main df conn stdin = (close_connection (fst (insert_student_data conn df stdin)), 0)
        \<and> committed (fst (main df conn stdin))
          = committed (fst (insert_student_data conn df stdin))
        \<and> working (fst (main df conn stdin))
          = working (fst (insert_student_data conn df stdin))
        \<and> main df conn stdin
          = (close_connection (fst (verify_insertion_success
               (fst (insert_student_data conn df stdin)) (length df))), 0))"
proof -
  have "main df conn stdin = (close_connection (fst (insert_student_data conn df stdin)), 0)
        \<and> committed (fst (main df conn stdin))
          = committed (fst (insert_student_data conn df stdin))
        \<and> working (fst (main df conn stdin))
          = working (fst (insert_student_data conn df stdin))
        \<and> main df conn stdin
          = (close_connection (fst (verify_insertion_success
               (fst (insert_student_data conn df stdin)) (length df))), 0)"
    if v: "validate_data_before_insertion df = Inr True"
      and r: "returned (snd (insert_student_data conn df stdin))"
  proof -
    obtain c1 out where i: "insert_student_data conn df stdin = (c1, out)"
      by (cases "insert_student_data conn df stdin")
    with r have out: "returned out" by simp
    from insert_student_data_returned[OF r] i have wc: "working c1 = committed c1" by simp
    have cl: "close_connection (c1\<lparr>status := STATUS_BEGIN\<rparr>) = close_connection c1"
      by (simp add: close_connection_def rollback_def)
    from v i out have m: "main df conn stdin
        = (close_connection (fst (verify_insertion_success c1 (length df))), 0)"
      by (simp add: main_def split: prod.splits)
    then have m': "main df conn stdin = (close_connection c1, 0)"
      by (simp add: verify_insertion_success_eq cl)
    from m' have f1: "committed (fst (main df conn stdin)) = committed c1"
      by (simp add: close_connection_fields)
    from m' wc have f2: "working (fst (main df conn stdin)) = working c1"
      by (simp add: close_connection_fields)
    from i have fsti: "fst (insert_student_data conn df stdin) = c1" by simp
    from m' f1 f2 m show ?thesis unfolding fsti by (intro conjI)
  qed
  with verify_insertion_success_eq[of conn expected_count] show ?thesis by blast
qed

text \<open>
  An instance: an empty batch on an empty table. The insertion returns \<open>True\<close>, the
  verification fails, and the run ends with exit status 0.
\<close>

theorem verify_insertion_success_nonfatal_witness:
  "validate_data_before_insertion [] = Inr True
   \<and> returned (snd (insert_student_data
        \<lparr>committed = Some [], working = Some [], status = STATUS_READY\<rparr> [] None))
   \<and> verify_insertion_success
        \<lparr>committed = Some [], working = Some [], status = STATUS_READY\<rparr>
        (length ([] :: clean_record list))
       = (\<lparr>committed = Some [], working = Some [], status = STATUS_BEGIN\<rparr>, False)
   \<and> main [] \<lparr>committed = Some [], working = Some [], status = STATUS_READY\<rparr> None
       = (\<lparr>committed = Some [], working = Some [], status = STATUS_READY\<rparr>, 0)"
proof -
  have v: "validate_data_before_insertion [] = Inr True"
    by code_simp
  have i: "insert_student_data \<lparr>committed = Some [], working = Some [], status = STATUS_READY\<rparr> [] None
         = (\<lparr>committed = Some [], working = Some [], status = STATUS_BEGIN\<rparr>, Inserted 0 0)"
    by code_simp
  then have r: "returned (snd (insert_student_data
        \<lparr>committed = Some [], working = Some [], status = STATUS_READY\<rparr> [] None))"
    by simp
  from verify_insertion_success_nonfatal
    [of "\<lparr>committed = Some [], working = Some [], status = STATUS_READY\<rparr>"
        "length ([] :: clean_record list)" "[]" None]
    v r i
  show ?thesis by (simp add: close_connection_def rollback_def)
qed

text \<open>
  C8 as stated fails on the comparison. The table holds one row, a batch of one
  record is inserted after the answer y, and \<open>main\<close> verifies with the batch size, 1,
  as the expected count: the verification passes with 2 rows counted, so the test is
  not an equality with the expected count, and the expected count is not the count
  before the batch plus the records inserted.
\<close>

theorem verify_insertion_success_not_equality:
  "insert_student_data
     \<lparr>committed = Some [\<lparr>db_student_name = ''Old Row'', db_first_name = ''Old'',
         db_last_name = ''Row'', db_age = 30, db_average_mark = 5, db_gender = ''m'',
         db_phone_number = None\<rparr>],
      working = Some [\<lparr>db_student_name = ''Old Row'', db_first_name = ''Old'',
         db_last_name = ''Row'', db_age = 30, db_average_mark = 5, db_gender = ''m'',
         db_phone_number = None\<rparr>],
      status = STATUS_READY\<rparr>
     [\<lparr>student_name = Some ''Ann Lee'', age = Num 20, average_mark = Num 7,
       gender = Some ''f'', phone_number = NaN,
       first_name = Some ''Ann'', last_name = Some ''Lee''\<rparr>]
     (Some ''y'')
   = (\<lparr>committed = Some [\<lparr>db_student_name = ''Old Row'', db_first_name = ''Old'',
         db_last_name = ''Row'', db_age = 30, db_average_mark = 5, db_gender = ''m'',
         db_phone_number = None\<rparr>,
        \<lparr>db_student_name = ''Ann Lee'', db_first_name = ''Ann'',
         db_last_name = ''Lee'', db_age = 20, db_average_mark = 7, db_gender = ''f'',
         db_phone_number = None\<rparr>],
       working = Some [\<lparr>db_student_name = ''Old Row'', db_first_name = ''Old'',
         db_last_name = ''Row'', db_age = 30, db_average_mark = 5, db_gender = ''m'',
         db_phone_number = None\<rparr>,
        \<lparr>db_student_name = ''Ann Lee'', db_first_name = ''Ann'',
         db_last_name = ''Lee'', db_age = 20, db_average_mark = 7, db_gender = ''f'',
         db_phone_number = None\<rparr>],
       status = STATUS_BEGIN\<rparr>, Inserted 1 2)
   \<and> verify_insertion_success
     \<lparr>committed = Some [\<lparr>db_student_name = ''Old Row'', db_first_name = ''Old'',
         db_last_name = ''Row'', db_age = 30, db_average_mark = 5, db_gender = ''m'',
         db_phone_number = None\<rparr>,
        \<lparr>db_student_name = ''Ann Lee'', db_first_name = ''Ann'',
         db_last_name = ''Lee'', db_age = 20, db_average_mark = 7, db_gender = ''f'',
         db_phone_number = None\<rparr>],
      working = Some [\<lparr>db_student_name = ''Old Row'', db_first_name = ''Old'',
         db_last_name = ''Row'', db_age = 30, db_average_mark = 5, db_gender = ''m'',
         db_phone_number = None\<rparr>,
        \<lparr>db_student_name = ''Ann Lee'', db_first_name = ''Ann'',
         db_last_name = ''Lee'', db_age = 20, db_average_mark = 7, db_gender = ''f'',
         db_phone_number = None\<rparr>],
      status = STATUS_BEGIN\<rparr>
     1
   = (\<lparr>committed = Some [\<lparr>db_student_name = ''Old Row'', db_first_name = ''Old'',
         db_last_name = ''Row'', db_age = 30, db_average_mark = 5, db_gender = ''m'',
         db_phone_number = None\<rparr>,
        \<lparr>db_student_name = ''Ann Lee'', db_first_name = ''Ann'',
         db_last_name = ''Lee'', db_age = 20, db_average_mark = 7, db_gender = ''f'',
         db_phone_number = None\<rparr>],
       working = Some [\<lparr>db_student_name = ''Old Row'', db_first_name = ''Old'',
         db_last_name = ''Row'', db_age = 30, db_average_mark = 5, db_gender = ''m'',
         db_phone_number = None\<rparr>,
        \<lparr>db_student_name = ''Ann Lee'', db_first_name = ''Ann'',
         db_last_name = ''Lee'', db_age = 20, db_average_mark = 7, db_gender = ''f'',
         db_phone_number = None\<rparr>],
       status = STATUS_BEGIN\<rparr>, True)"
  by code_simp

section \<open>The aggregator\<close>

lemma round_half_away_close: "\<bar>of_int (round_half_away y) - y\<bar> \<le> 1 / 2"
proof (cases "y < 0")
  case True
  define z where "z = \<lfloor>- y + 1 / 2\<rfloor>"
  have "of_int z \<le> - y + 1 / 2" and "- y + 1 / 2 < of_int z + 1"
    unfolding z_def by linarith+
  then have "\<bar>- of_int z - y\<bar> \<le> 1 / 2" by linarith
  with True show ?thesis by (simp add: round_half_away_def z_def)
next
  case False
  define z where "z = \<lfloor>y + 1 / 2\<rfloor>"
  have "of_int z \<le> y + 1 / 2" and "y + 1 / 2 < of_int z + 1"
    unfolding z_def by linarith+
  then have "\<bar>of_int z - y\<bar> \<le> 1 / 2" by linarith
  with False show ?thesis by (simp add: round_half_away_def z_def)
qed

lemma select_div_scale_ge: "2 \<le> select_div_scale sumx n"
  by (auto simp: select_div_scale_def Let_def split: prod.splits)

text \<open>
  The average that PostgreSQL returns is the exact mean rounded at the number of
  decimals it has chosen, which is 2 at least.
\<close>

lemma pg_avg_close:
  "\<bar>pg_avg xs - sum_list xs / of_nat (length xs)\<bar>
   \<le> 1 / (2 * 10 ^ select_div_scale (sum_list xs) (length xs))"
proof -
  let ?k = "select_div_scale (sum_list xs) (length xs)"
  let ?q = "sum_list xs / of_nat (length xs)"
  have p: "(0 :: rat) < 10 ^ ?k" by simp
  have "pg_avg xs - ?q = (of_int (round_half_away (?q * 10 ^ ?k)) - ?q * 10 ^ ?k) / 10 ^ ?k"
    by (simp add: pg_avg_def numeric_div_def diff_divide_distrib)
  then have "\<bar>pg_avg xs - ?q\<bar> = \<bar>of_int (round_half_away (?q * 10 ^ ?k)) - ?q * 10 ^ ?k\<bar> / 10 ^ ?k"
    by (simp add: abs_divide del: of_int_diff)
  also have "\<dots> \<le> (1 / 2) / 10 ^ ?k"
    by (rule divide_right_mono[OF round_half_away_close]) simp
  finally show ?thesis by simp
qed

lemma analyze_nonempty:
  assumes "working conn = Some rows" and "rows \<noteq> []"
  shows "analyze_student_performance_by_gender conn
       = (conn\<lparr>status := STATUS_BEGIN\<rparr>, Some (analysis_query rows))"
  using assms
  by (simp add: analyze_student_performance_by_gender_def overview_query_def format_2f_def
      sql_min_def sql_max_def sql_avg_def begin_transaction_def)

lemma group_gender_group_of: "group_gender (group_of selected g) = g"
  by (simp add: group_of_def Let_def)

lemma analysis_query_keys:
  "map group_gender (analysis_query rows)
   = sort (remdups (map db_gender (filter (\<lambda>r. db_average_mark r > 5) rows)))"
  by (simp add: analysis_query_def Let_def comp_def group_gender_group_of)

text \<open>
  On a table that is not empty the function returns the rows of the analysis query:
  one per gender that occurs among the rows with an average mark above 5.0, in
  ascending order of the gender, each with the count, the average as PostgreSQL
  rounds it, the least and the greatest mark of exactly those rows of its gender.
\<close>

lemma analyze_groups:
  assumes "working conn = Some rows" and "rows \<noteq> []"
  shows "\<exists>res. snd (analyze_student_performance_by_gender conn) = Some res
       \<and> sorted (map group_gender res) \<and> distinct (map group_gender res)
       \<and> set (map group_gender res) = db_gender ` {r \<in> set rows. db_average_mark r > 5}
       \<and> (\<forall>g\<in>set res.
            student_count g
              = length (filter (\<lambda>r. db_average_mark r > 5 \<and> db_gender r = group_gender g) rows)
            \<and> 0 < student_count g
            \<and> avg_mark_in_group g
              = pg_avg (map db_average_mark
                  (filter (\<lambda>r. db_average_mark r > 5 \<and> db_gender r = group_gender g) rows))
            \<and> min_mark_in_group g
              = Min (db_average_mark ` {r \<in> set rows. db_average_mark r > 5 \<and> db_gender r = group_gender g})
            \<and> max_mark_in_group g
              = Max (db_average_mark ` {r \<in> set rows. db_average_mark r > 5 \<and> db_gender r = group_gender g}))"
proof -
  let ?sel = "filter (\<lambda>r. db_average_mark r > 5) rows"
  let ?res = "analysis_query rows"
  have keys: "map group_gender ?res = sort (remdups (map db_gender ?sel))"
    by (rule analysis_query_keys)
  have s: "sorted (map group_gender ?res)" and d: "distinct (map group_gender ?res)"
    unfolding keys by simp_all
  have k: "set (map group_gender ?res) = db_gender ` {r \<in> set rows. db_average_mark r > 5}"
    unfolding keys by auto
  have f: "filter (\<lambda>r. db_gender r = x) ?sel
         = filter (\<lambda>r. db_average_mark r > 5 \<and> db_gender r = x) rows" for x
    by (simp add: conj_commute)
  have st: "student_count g
              = length (filter (\<lambda>r. db_average_mark r > 5 \<and> db_gender r = group_gender g) rows)
            \<and> 0 < student_count g
            \<and> avg_mark_in_group g
              = pg_avg (map db_average_mark
                  (filter (\<lambda>r. db_average_mark r > 5 \<and> db_gender r = group_gender g) rows))
            \<and> min_mark_in_group g
              = Min (db_average_mark ` {r \<in> set rows. db_average_mark r > 5 \<and> db_gender r = group_gender g})
            \<and> max_mark_in_group g
              = Max (db_average_mark ` {r \<in> set rows. db_average_mark r > 5 \<and> db_gender r = group_gender g})"
    if g: "g \<in> set ?res" for g
  proof -
    from g obtain x where x: "x \<in> set (map db_gender ?sel)" and gx: "g = group_of ?sel x"
      by (auto simp: analysis_query_def Let_def)
    then have gg: "group_gender g = x" by (simp add: group_gender_group_of)
    from x obtain r where "r \<in> set rows" "db_average_mark r > 5" "db_gender r = x" by auto
    then have "r \<in> set (filter (\<lambda>r. db_average_mark r > 5 \<and> db_gender r = x) rows)" by simp
    then have pos: "0 < length (filter (\<lambda>r. db_average_mark r > 5 \<and> db_gender r = x) rows)"
      by (rule length_pos_if_in_set)
    have im: "set (map db_average_mark (filter (\<lambda>r. db_average_mark r > 5 \<and> db_gender r = x) rows))
            = db_average_mark ` {r \<in> set rows. db_average_mark r > 5 \<and> db_gender r = x}"
      by auto
    show ?thesis
      unfolding gg unfolding gx group_of_def Let_def f
      using pos im by simp
  qed
  have a: "snd (analyze_student_performance_by_gender conn) = Some ?res"
    using analyze_nonempty[OF assms] by simp
  show ?thesis
  proof (rule exI[of _ ?res], intro conjI)
    show "snd (analyze_student_performance_by_gender conn) = Some ?res" by (rule a)
    show "sorted (map group_gender ?res)" by (rule s)
    show "distinct (map group_gender ?res)" by (rule d)
    show "set (map group_gender ?res) = db_gender ` {r \<in> set rows. db_average_mark r > 5}"
      by (rule k)
  next
    show "\<forall>g\<in>set ?res.
            student_count g
              = length (filter (\<lambda>r. db_average_mark r > 5 \<and> db_gender r = group_gender g) rows)
            \<and> 0 < student_count g
            \<and> avg_mark_in_group g
              = pg_avg (map db_average_mark
                  (filter (\<lambda>r. db_average_mark r > 5 \<and> db_gender r = group_gender g) rows))
            \<and> min_mark_in_group g
              = Min (db_average_mark ` {r \<in> set rows. db_average_mark r > 5 \<and> db_gender r = group_gender g})
            \<and> max_mark_in_group g
              = Max (db_average_mark ` {r \<in> set rows. db_average_mark r > 5 \<and> db_gender r = group_gender g})"
      using st by (rule ballI)
  qed
qed

text \<open>The example of spec section 8.\<close>

lemma analyze_example:
  "snd (analyze_student_performance_by_gender
     \<lparr>committed = Some [],
      working = Some
       [\<lparr>db_student_name = ''Ann Lee'', db_first_name = ''Ann'', db_last_name = ''Lee'',
         db_age = 20, db_average_mark = 6, db_gender = ''f'', db_phone_number = None\<rparr>,
        \<lparr>db_student_name = ''Eve Fox'', db_first_name = ''Eve'', db_last_name = ''Fox'',
         db_age = 21, db_average_mark = 4, db_gender = ''f'', db_phone_number = None\<rparr>,
        \<lparr>db_student_name = ''Bo Chen'', db_first_name = ''Bo'', db_last_name = ''Chen'',
         db_age = 22, db_average_mark = 8, db_gender = ''m'', db_phone_number = None\<rparr>],
      status = STATUS_READY\<rparr>)
   = Some [\<lparr>group_gender = ''f'', student_count = 1, avg_mark_in_group = 6,
            min_mark_in_group = 6, max_mark_in_group = 6\<rparr>,
           \<lparr>group_gender = ''m'', student_count = 1, avg_mark_in_group = 8,
            min_mark_in_group = 8, max_mark_in_group = 8\<rparr>]"
  by code_simp

text \<open>An average that does not end: the marks 7, 7 and 6 give 6.6666666666666667.\<close>

lemma pg_avg_example: "pg_avg [7, 7, 6] = 66666666666666667 / 10000000000000000"
  by code_simp

text \<open>
  C7 fails on the empty table. The table exists and holds no row: the overview
  query gives \<open>NULL\<close> for the least mark, its \<open>:.2f\<close> raises, the \<open>Exception\<close> handler
  returns \<open>None\<close>, and the function reports a failure where the claim has the empty
  sequence of groups.
\<close>

theorem analyze_student_performance_by_gender_empty_table:
  "analyze_student_performance_by_gender
     \<lparr>committed = Some [], working = Some [], status = STATUS_READY\<rparr>
   = (\<lparr>committed = Some [], working = Some [], status = STATUS_BEGIN\<rparr>, None)
   \<and> analysis_query [] = []"
  by (simp add: analyze_student_performance_by_gender_def overview_query_def format_2f_def
      sql_min_def analysis_query_def begin_transaction_def)

lemma pg_avg_close_200:
  "\<bar>pg_avg xs - sum_list xs / of_nat (length xs)\<bar> \<le> 1 / 200"
proof -
  let ?k = "select_div_scale (sum_list xs) (length xs)"
  have "(10 :: rat) ^ 2 \<le> 10 ^ ?k"
    by (rule power_increasing[OF select_div_scale_ge]) simp
  then have "(200 :: rat) \<le> 2 * 10 ^ ?k" by simp
  then have "1 / (2 * 10 ^ ?k) \<le> 1 / (200 :: rat)"
    by (intro divide_left_mono) simp_all
  with pg_avg_close[of xs] show ?thesis by linarith
qed

lemma age_group_label_row: "age_group_label (age_group_row rows l) = l"
  by (simp add: age_group_row_def Let_def)

lemma age_group_rows_labels:
  "map age_group_label (age_group_rows rows) = remdups (map (\<lambda>r. age_group_of (db_age r)) rows)"
  by (simp add: age_group_rows_def comp_def age_group_label_row)

lemma age_group_of_cases: "age_group_of a \<in> {''Under 20'', ''20-25'', ''Over 25''}"
  by (simp add: age_group_of_def)

lemma mset_insert_desc: "mset (insert_desc g hs) = add_mset g (mset hs)"
  by (induction hs) simp_all

lemma set_insert_desc: "set (insert_desc g hs) = insert g (set hs)"
  by (induction hs) auto

lemma sorted_insert_desc:
  "sorted_wrt (\<lambda>a b. avg_mark a \<ge> avg_mark b) hs
   \<Longrightarrow> sorted_wrt (\<lambda>a b. avg_mark a \<ge> avg_mark b) (insert_desc g hs)"
  by (induction hs) (auto simp: set_insert_desc)

lemma mset_foldr_insert_desc: "mset (foldr insert_desc gs []) = mset gs"
  by (induction gs) (simp_all add: mset_insert_desc)

lemma sorted_foldr_insert_desc:
  "sorted_wrt (\<lambda>a b. avg_mark a \<ge> avg_mark b) (foldr insert_desc gs [])"
  by (induction gs) (simp_all add: sorted_insert_desc)

lemma is_age_results_age_results: "is_age_results rows (age_results rows)"
  by (simp add: is_age_results_def age_results_def mset_foldr_insert_desc sorted_foldr_insert_desc)

text \<open>
  C9, as the code has it. The age group query has a result, and every result has one
  row for each of the labels Under 20, 20-25 and Over 25 that occurs in the table, with
  the number of all the rows of the group, whatever their marks, which is not zero,
  the number of those with an average mark above 5.0, and the mean of the marks of
  all the rows of the group as PostgreSQL rounds it (\<open>pg_avg\<close>: half away from zero at
  the number of decimals of \<open>select_div_scale\<close>, 16 for a bucket of ordinary marks);
  the rows are in descending order of that mean. The query names no second sort key.
\<close>

theorem age_results_groups:
  "is_age_results rows (age_results rows)
   \<and> (\<forall>res. is_age_results rows res \<longrightarrow>
        distinct (map age_group_label res)
        \<and> set (map age_group_label res) = (\<lambda>r. age_group_of (db_age r)) ` set rows
        \<and> set (map age_group_label res) \<subseteq> {''Under 20'', ''20-25'', ''Over 25''}
        \<and> (\<forall>g\<in>set res.
             total_students g
               = length (filter (\<lambda>r. age_group_of (db_age r) = age_group_label g) rows)
             \<and> 0 < total_students g
             \<and> high_performers g
               = length (filter (\<lambda>r. age_group_of (db_age r) = age_group_label g
                                     \<and> db_average_mark r > 5) rows)
             \<and> avg_mark g
               = pg_avg (map db_average_mark
                   (filter (\<lambda>r. age_group_of (db_age r) = age_group_label g) rows))
             \<and> \<bar>avg_mark g
                 - sum_list (map db_average_mark
                     (filter (\<lambda>r. age_group_of (db_age r) = age_group_label g) rows))
                   / of_nat (total_students g)\<bar> \<le> 1 / 200)
        \<and> sorted_wrt (\<lambda>a b. avg_mark a \<ge> avg_mark b) res)"
proof -
  have "distinct (map age_group_label res)
        \<and> set (map age_group_label res) = (\<lambda>r. age_group_of (db_age r)) ` set rows
        \<and> set (map age_group_label res) \<subseteq> {''Under 20'', ''20-25'', ''Over 25''}
        \<and> (\<forall>g\<in>set res.
             total_students g
               = length (filter (\<lambda>r. age_group_of (db_age r) = age_group_label g) rows)
             \<and> 0 < total_students g
             \<and> high_performers g
               = length (filter (\<lambda>r. age_group_of (db_age r) = age_group_label g
                                     \<and> db_average_mark r > 5) rows)
             \<and> avg_mark g
               = pg_avg (map db_average_mark
                   (filter (\<lambda>r. age_group_of (db_age r) = age_group_label g) rows))
             \<and> \<bar>avg_mark g
                 - sum_list (map db_average_mark
                     (filter (\<lambda>r. age_group_of (db_age r) = age_group_label g) rows))
                   / of_nat (total_students g)\<bar> \<le> 1 / 200)
        \<and> sorted_wrt (\<lambda>a b. avg_mark a \<ge> avg_mark b) res"
    if r: "is_age_results rows res" for res
  proof -
    from r have m: "mset res = mset (age_group_rows rows)"
      and s: "sorted_wrt (\<lambda>a b. avg_mark a \<ge> avg_mark b) res"
      by (simp_all add: is_age_results_def)
    from m have ml: "mset (map age_group_label res) = mset (map age_group_label (age_group_rows rows))"
      by (metis mset_map)
    have "distinct (map age_group_label (age_group_rows rows))"
      by (simp add: age_group_rows_labels)
    with ml have d: "distinct (map age_group_label res)"
      by (metis mset_eq_imp_distinct_iff)
    from ml have "set (map age_group_label res) = set (map age_group_label (age_group_rows rows))"
      by (rule mset_eq_setD)
    then have k: "set (map age_group_label res) = (\<lambda>r. age_group_of (db_age r)) ` set rows"
      by (simp add: age_group_rows_labels)
    have sub: "set (map age_group_label res) \<subseteq> {''Under 20'', ''20-25'', ''Over 25''}"
      unfolding k using age_group_of_cases by blast
    have st: "total_students g
               = length (filter (\<lambda>r. age_group_of (db_age r) = age_group_label g) rows)
             \<and> 0 < total_students g
             \<and> high_performers g
               = length (filter (\<lambda>r. age_group_of (db_age r) = age_group_label g
                                     \<and> db_average_mark r > 5) rows)
             \<and> avg_mark g
               = pg_avg (map db_average_mark
                   (filter (\<lambda>r. age_group_of (db_age r) = age_group_label g) rows))
             \<and> \<bar>avg_mark g
                 - sum_list (map db_average_mark
                     (filter (\<lambda>r. age_group_of (db_age r) = age_group_label g) rows))
                   / of_nat (total_students g)\<bar> \<le> 1 / 200"
      if g: "g \<in> set res" for g
    proof -
      let ?members = "filter (\<lambda>r. age_group_of (db_age r) = age_group_label g) rows"
      from m have "set res = set (age_group_rows rows)" by (rule mset_eq_setD)
      with g obtain l where ll: "l \<in> (\<lambda>r. age_group_of (db_age r)) ` set rows"
        and gl: "g = age_group_row rows l"
        by (auto simp: age_group_rows_def)
      then have l: "age_group_label g = l" by (simp add: age_group_label_row)
      from ll obtain r where "r \<in> set rows" "age_group_of (db_age r) = l" by auto
      then have "r \<in> set (filter (\<lambda>r. age_group_of (db_age r) = l) rows)" by simp
      then have pos: "0 < length (filter (\<lambda>r. age_group_of (db_age r) = l) rows)"
        by (rule length_pos_if_in_set)
      have t: "total_students g = length ?members"
        unfolding l unfolding gl age_group_row_def Let_def by simp
      have h: "high_performers g
               = length (filter (\<lambda>r. age_group_of (db_age r) = age_group_label g
                                     \<and> db_average_mark r > 5) rows)"
        unfolding l unfolding gl age_group_row_def Let_def by (simp add: conj_commute)
      have a: "avg_mark g = pg_avg (map db_average_mark ?members)"
        unfolding l unfolding gl age_group_row_def Let_def by simp
      have p: "0 < total_students g" unfolding t l by (rule pos)
      have "\<bar>pg_avg (map db_average_mark ?members)
             - sum_list (map db_average_mark ?members) / of_nat (length (map db_average_mark ?members))\<bar>
            \<le> 1 / 200"
        by (rule pg_avg_close_200)
      then have c: "\<bar>avg_mark g - sum_list (map db_average_mark ?members) / of_nat (total_students g)\<bar>
            \<le> 1 / 200"
        unfolding a t by simp
      from t p h a c show ?thesis by (intro conjI)
    qed
    from d k sub st s show ?thesis by blast
  qed
  with is_age_results_age_results[of rows] show ?thesis by blast
qed

text \<open>
  An instance: four rows in two groups. The three rows under 20 have the marks 7, 7
  and 6, all above 5.0; their mean does not end, and the query gives
  6.6666666666666667 for it.
\<close>

theorem age_results_groups_witness:
  "is_age_results
     [\<lparr>db_student_name = ''Ann Lee'', db_first_name = ''Ann'', db_last_name = ''Lee'',
       db_age = 19, db_average_mark = 7, db_gender = ''f'', db_phone_number = None\<rparr>,
      \<lparr>db_student_name = ''Eve Fox'', db_first_name = ''Eve'', db_last_name = ''Fox'',
       db_age = 19, db_average_mark = 7, db_gender = ''f'', db_phone_number = None\<rparr>,
      \<lparr>db_student_name = ''Bo Chen'', db_first_name = ''Bo'', db_last_name = ''Chen'',
       db_age = 30, db_average_mark = 8, db_gender = ''m'', db_phone_number = None\<rparr>,
      \<lparr>db_student_name = ''Cy Diaz'', db_first_name = ''Cy'', db_last_name = ''Diaz'',
       db_age = 18, db_average_mark = 6, db_gender = ''m'', db_phone_number = None\<rparr>]
     [\<lparr>age_group_label = ''Over 25'', total_students = 1, high_performers = 1, avg_mark = 8\<rparr>,
      \<lparr>age_group_label = ''Under 20'', total_students = 3, high_performers = 3,
       avg_mark = 66666666666666667 / 10000000000000000\<rparr>]
   \<and> distinct (map age_group_label
     [\<lparr>age_group_label = ''Over 25'', total_students = 1, high_performers = 1, avg_mark = 8\<rparr>,
      \<lparr>age_group_label = ''Under 20'', total_students = 3, high_performers = 3,
       avg_mark = 66666666666666667 / 10000000000000000\<rparr>])
   \<and> sorted_wrt (\<lambda>a b. avg_mark a \<ge> avg_mark b)
     [\<lparr>age_group_label = ''Over 25'', total_students = 1, high_performers = 1, avg_mark = 8\<rparr>,
      \<lparr>age_group_label = ''Under 20'', total_students = 3, high_performers = 3,
       avg_mark = 66666666666666667 / 10000000000000000\<rparr>]"
  (is "is_age_results ?rows ?res \<and> distinct (map age_group_label ?res) \<and> sorted_wrt ?o ?res")
proof -
  have e: "age_results ?rows = ?res"
    by code_simp
  from age_results_groups[of ?rows] have h: "is_age_results ?rows (age_results ?rows)"
    and a: "\<forall>res. is_age_results ?rows res \<longrightarrow> distinct (map age_group_label res) \<and> sorted_wrt ?o res"
    by blast+
  from h have h': "is_age_results ?rows ?res" unfolding e .
  with a show ?thesis by blast
qed

text \<open>
  C9 as stated fails on the population: a table whose one row has an average mark
  of 4.0 gives a group with that row, a mean of 4.0 and no row above 5.0, where the
  population of the marks above 5.0 is empty and would give no group at all.
\<close>

theorem age_results_unfiltered:
  "age_results
     [\<lparr>db_student_name = ''Eve Fox'', db_first_name = ''Eve'', db_last_name = ''Fox'',
       db_age = 19, db_average_mark = 4, db_gender = ''f'', db_phone_number = None\<rparr>]
   = [\<lparr>age_group_label = ''Under 20'', total_students = 1, high_performers = 0, avg_mark = 4\<rparr>]
   \<and> age_group_rows
     [\<lparr>db_student_name = ''Eve Fox'', db_first_name = ''Eve'', db_last_name = ''Fox'',
       db_age = 19, db_average_mark = 4, db_gender = ''f'', db_phone_number = None\<rparr>]
   = [\<lparr>age_group_label = ''Under 20'', total_students = 1, high_performers = 0, avg_mark = 4\<rparr>]
   \<and> analysis_query
     [\<lparr>db_student_name = ''Eve Fox'', db_first_name = ''Eve'', db_last_name = ''Fox'',
       db_age = 19, db_average_mark = 4, db_gender = ''f'', db_phone_number = None\<rparr>]
   = []"
  by code_simp

text \<open>
  The sort key is the mean alone. With one row of mark 6.0 under 20 and one between
  20 and 25 the two groups have the same key, and \<^verbatim>\<open>ORDER BY avg_mark DESC\<close> asks for
  nothing between them: both arrangements meet the query, the one in descending order
  of the label among them.
\<close>

lemma age_results_ties_open:
  "is_age_results
     [\<lparr>db_student_name = ''Cy Diaz'', db_first_name = ''Cy'', db_last_name = ''Diaz'',
       db_age = 19, db_average_mark = 6, db_gender = ''m'', db_phone_number = None\<rparr>,
      \<lparr>db_student_name = ''Ann Lee'', db_first_name = ''Ann'', db_last_name = ''Lee'',
       db_age = 22, db_average_mark = 6, db_gender = ''f'', db_phone_number = None\<rparr>]
     [\<lparr>age_group_label = ''Under 20'', total_students = 1, high_performers = 1, avg_mark = 6\<rparr>,
      \<lparr>age_group_label = ''20-25'', total_students = 1, high_performers = 1, avg_mark = 6\<rparr>]
   \<and> is_age_results
     [\<lparr>db_student_name = ''Cy Diaz'', db_first_name = ''Cy'', db_last_name = ''Diaz'',
       db_age = 19, db_average_mark = 6, db_gender = ''m'', db_phone_number = None\<rparr>,
      \<lparr>db_student_name = ''Ann Lee'', db_first_name = ''Ann'', db_last_name = ''Lee'',
       db_age = 22, db_average_mark = 6, db_gender = ''f'', db_phone_number = None\<rparr>]
     [\<lparr>age_group_label = ''20-25'', total_students = 1, high_performers = 1, avg_mark = 6\<rparr>,
      \<lparr>age_group_label = ''Under 20'', total_students = 1, high_performers = 1, avg_mark = 6\<rparr>]"
  by code_simp

end
